theory Spec2Isabelle
  imports Main "HOL-Library.Word"
begin

section \<open>The IndexTTS2 gateway (\<^verbatim>\<open>src/tts/index-tts2/app.py\<close>)\<close>

text \<open>
  The gateway renders a shell command from a template and the fields of a request, runs
  it, and returns the file the command wrote. The embedding follows \<^verbatim>\<open>app.py\<close>
  line by line. What the file takes from Python's library (\<^verbatim>\<open>str\<close>,
  \<^verbatim>\<open>shlex.quote\<close>, \<^verbatim>\<open>str.format\<close>, \<^verbatim>\<open>str.strip\<close>,
  \<^verbatim>\<open>pathlib\<close>, \<^verbatim>\<open>base64\<close>) is written out as functions; the
  external process and the name of the temporary directory are parameters.

  A Python \<^verbatim>\<open>str\<close> is a \<^typ>\<open>string\<close> whose characters are the code points
  0 to 255; a byte of a file is an \<^typ>\<open>8 word\<close>.
\<close>

subsection \<open>Exceptions and values\<close>

text \<open>
  The exceptions the code raises or lets through. \<open>HTTPException\<close> carries the status
  code and the detail. \<open>NotModelled\<close> is no exception of Python: it marks a template
  with a replacement field that is more than a name (an attribute or index lookup, a
  conversion, a format specification), where this embedding does not say what
  \<^verbatim>\<open>str.format\<close> returns.
\<close>

datatype py_exn =
    HTTPException nat string
  | KeyError string
  | ValueError
  | IndexError
  | CalledProcessError int
  | FileNotFoundError
  | IsADirectoryError
  | RequestValidationError string
  | ResponseValidationError
  | NotModelled

text \<open>The values of the substitution mapping: strings, and the integer seed.\<close>

datatype pyval = PStr string | PInt int

text \<open>Python's truth test \<^verbatim>\<open>if v\<close>: the empty string and zero are false.\<close>

fun truthy :: "pyval \<Rightarrow> bool" where
  "truthy (PStr s) = (s \<noteq> [])"
| "truthy (PInt i) = (i \<noteq> 0)"

text \<open>\<^verbatim>\<open>str(v)\<close>: a string is itself, an integer is written in decimal.\<close>

definition digit_char :: "nat \<Rightarrow> char" where
  "digit_char d = ''0123456789'' ! d"

fun str_nat :: "nat \<Rightarrow> string" where
  "str_nat n =
     (if n < 10 then [digit_char n]
      else str_nat (n div 10) @ [digit_char (n mod 10)])"

declare str_nat.simps [simp del]

definition str_int :: "int \<Rightarrow> string" where
  "str_int i = (if i < 0 then CHR ''-'' # str_nat (nat (- i)) else str_nat (nat i))"

fun py_str :: "pyval \<Rightarrow> string" where
  "py_str (PStr s) = s"
| "py_str (PInt i) = str_int i"

subsection \<open>\<^verbatim>\<open>shlex.quote\<close>\<close>

text \<open>
  \<^verbatim>\<open>
  _find_unsafe = re.compile(r'[^\w@%+=:,./-]', re.ASCII).search
  def quote(s):
      if not s: return "''"
      if _find_unsafe(s) is None: return s
      return "'" + s.replace("'", "'\"'\"'") + "'"
  \<close>
\<close>

definition squote :: char where
  "squote = CHR 0x27"

definition dquote :: char where
  "dquote = CHR 0x22"

definition shlex_safe :: "char \<Rightarrow> bool" where
  "shlex_safe c =
     (c \<in> set ''ABCDEFGHIJKLMNOPQRSTUVWXYZabcdefghijklmnopqrstuvwxyz0123456789_@%+=:,./-'')"

definition escape_squote :: "char \<Rightarrow> string" where
  "escape_squote c = (if c = squote then [squote, dquote, squote, dquote, squote] else [c])"

definition shlex_quote :: "string \<Rightarrow> string" where
  "shlex_quote s =
     (if s = [] then [squote, squote]
      else if list_all shlex_safe s then s
      else [squote] @ concat (map escape_squote s) @ [squote])"

subsection \<open>\<^verbatim>\<open>str.strip\<close>\<close>

text \<open>The white space of \<^verbatim>\<open>str.isspace\<close> among the code points 0 to 255.\<close>

definition py_isspace :: "char \<Rightarrow> bool" where
  "py_isspace c = (of_char c \<in> {9, 10, 11, 12, 13, 28, 29, 30, 31, 32, 133, 160 :: nat})"

definition py_strip :: "string \<Rightarrow> string" where
  "py_strip s = rev (dropWhile py_isspace (rev (dropWhile py_isspace s)))"

text \<open>\<^verbatim>\<open>str.lstrip\<close> and \<^verbatim>\<open>str.rstrip\<close>, the two halves of \<^verbatim>\<open>str.strip\<close>.\<close>

definition py_lstrip :: "string \<Rightarrow> string" where
  "py_lstrip s = dropWhile py_isspace s"

definition py_rstrip :: "string \<Rightarrow> string" where
  "py_rstrip s = rev (dropWhile py_isspace (rev s))"

subsection \<open>\<^verbatim>\<open>str.format\<close> with keyword arguments only\<close>

text \<open>
  \<^verbatim>\<open>template.format(**sanitized)\<close> reads the template from left to right. Literal
  text is copied, \<^verbatim>\<open>{{\<close> and \<^verbatim>\<open>}}\<close> stand for one brace, and a replacement
  field \<^verbatim>\<open>{name}\<close> is looked up among the keyword arguments: a missing name raises
  \<^verbatim>\<open>KeyError(name)\<close>. A lone brace and an unfinished field raise
  \<^verbatim>\<open>ValueError\<close>; an empty or an all-digit name is a position, and with no
  positional argument it raises \<^verbatim>\<open>IndexError\<close> (\<^verbatim>\<open>ValueError\<close> when the number
  exceeds the largest index of a 64-bit build). The exception is raised when the reader
  reaches the field, so the text after it is never read.

  \<open>markup\<close> is what the reader meets, in order: a literal character, a replacement
  field that is a name, the point where an exception is raised whatever the arguments
  are, or a field outside the fragment modelled here.
\<close>

datatype markup = Lit char | Replacement string | Raises py_exn

definition is_digit :: "char \<Rightarrow> bool" where
  "is_digit c = (c \<in> set ''0123456789'')"

definition digits_value :: "string \<Rightarrow> nat" where
  "digits_value ds = foldl (\<lambda>a d. 10 * a + (of_char d - 48)) 0 ds"

definition ssize_max :: nat where
  "ssize_max = 2 ^ 63 - 1"

definition field_markup :: "string \<Rightarrow> markup" where
  "field_markup name =
     (if CHR ''.'' \<in> set name then Raises NotModelled
      else if list_all is_digit name then
        (if digits_value name > ssize_max then Raises ValueError else Raises IndexError)
      else Replacement name)"

fun parse_literal :: "string \<Rightarrow> markup list"
and parse_field :: "string \<Rightarrow> string \<Rightarrow> markup list" where
  "parse_literal [] = []"
| "parse_literal (c # cs) =
     (if c = CHR ''{'' then
        (case cs of
           [] \<Rightarrow> [Raises ValueError]
         | d # ds \<Rightarrow> if d = CHR ''{'' then Lit c # parse_literal ds else parse_field [] cs)
      else if c = CHR ''}'' then
        (case cs of
           [] \<Rightarrow> [Raises ValueError]
         | d # ds \<Rightarrow> if d = CHR ''}'' then Lit c # parse_literal ds else [Raises ValueError])
      else Lit c # parse_literal cs)"
| "parse_field name [] = [Raises ValueError]"
| "parse_field name (c # cs) =
     (if c = CHR ''}'' then field_markup name # parse_literal cs
      else if c = CHR ''{'' then [Raises ValueError]
      else if c = CHR ''['' \<or> c = CHR '':'' \<or> c = CHR ''!'' then [Raises NotModelled]
      else parse_field (name @ [c]) cs)"

fun format_markup :: "markup list \<Rightarrow> (string \<rightharpoonup> string) \<Rightarrow> py_exn + string" where
  "format_markup [] kw = Inr []"
| "format_markup (Lit c # ms) kw =
     (case format_markup ms kw of Inl e \<Rightarrow> Inl e | Inr s \<Rightarrow> Inr (c # s))"
| "format_markup (Replacement name # ms) kw =
     (case kw name of
        None \<Rightarrow> Inl (KeyError name)
      | Some v \<Rightarrow> (case format_markup ms kw of Inl e \<Rightarrow> Inl e | Inr s \<Rightarrow> Inr (v @ s)))"
| "format_markup (Raises e # ms) kw = Inl e"

definition py_format :: "string \<Rightarrow> (string \<rightharpoonup> string) \<Rightarrow> py_exn + string" where
  "py_format template kw = format_markup (parse_literal template) kw"

text \<open>The names of the replacement fields the reader meets, in order.\<close>

fun field_names :: "markup list \<Rightarrow> string list" where
  "field_names [] = []"
| "field_names (Replacement name # ms) = name # field_names ms"
| "field_names (m # ms) = field_names ms"

definition placeholders :: "string \<Rightarrow> string list" where
  "placeholders template = field_names (parse_literal template)"

text \<open>
  A template is plain when the reader meets literal text and named fields only: it is
  well formed and stays in the fragment modelled here.
\<close>

fun plain_markup :: "markup list \<Rightarrow> bool" where
  "plain_markup [] = True"
| "plain_markup (Raises e # ms) = False"
| "plain_markup (m # ms) = plain_markup ms"

definition plain_template :: "string \<Rightarrow> bool" where
  "plain_template template = plain_markup (parse_literal template)"

text \<open>
  A template is modelled when the reader never meets a field outside the fragment; it
  may still be malformed. A plain name is one that \<^verbatim>\<open>{name}\<close> looks up as it
  stands: it has none of the characters that end or structure a field, and it is not a
  position.
\<close>

definition modelled_template :: "string \<Rightarrow> bool" where
  "modelled_template template = (Raises NotModelled \<notin> set (parse_literal template))"

text \<open>The exceptions the reader raises by itself, whatever the arguments are.\<close>

definition format_exn :: "py_exn \<Rightarrow> bool" where
  "format_exn e = (e = ValueError \<or> e = IndexError \<or> e = NotModelled)"

definition field_char :: "char \<Rightarrow> bool" where
  "field_char c = (c \<notin> set ''{}[:!.'')"

definition plain_name :: "string \<Rightarrow> bool" where
  "plain_name k = (list_all field_char k \<and> \<not> list_all is_digit k)"

subsection \<open>\<^verbatim>\<open>str(Path(tmpdir) / name)\<close>\<close>

text \<open>
  \<^verbatim>\<open>posixpath.join\<close> of two segments, then the string of the parsed path: the root
  (\<^verbatim>\<open>//\<close> for exactly two leading slashes, \<^verbatim>\<open>/\<close> for any other number, none
  for a relative path) followed by the components that are neither empty nor
  \<^verbatim>\<open>.\<close>, joined by one slash; \<^verbatim>\<open>.\<close> when nothing is left.
\<close>

definition posixpath_join :: "string \<Rightarrow> string \<Rightarrow> string" where
  "posixpath_join a b =
     (if b \<noteq> [] \<and> hd b = CHR ''/'' then b
      else if a = [] \<or> last a = CHR ''/'' then a @ b
      else a @ ''/'' @ b)"

definition keep_part :: "string \<Rightarrow> string list" where
  "keep_part cur = (if cur = [] \<or> cur = ''.'' then [] else [cur])"

fun path_parts :: "string \<Rightarrow> string \<Rightarrow> string list" where
  "path_parts cur [] = keep_part cur"
| "path_parts cur (c # cs) =
     (if c = CHR ''/'' then keep_part cur @ path_parts [] cs else path_parts (cur @ [c]) cs)"

fun join_parts :: "string list \<Rightarrow> string" where
  "join_parts [] = []"
| "join_parts [p] = p"
| "join_parts (p # q # ps) = p @ ''/'' @ join_parts (q # ps)"

definition path_root :: "string \<Rightarrow> string" where
  "path_root s =
     (let n = length (takeWhile (\<lambda>c. c = CHR ''/'') s)
      in if n = 0 then [] else if n = 2 then ''//'' else ''/'')"

definition path_str :: "string \<Rightarrow> string" where
  "path_str s =
     (let r = path_root s; t = join_parts (path_parts [] s)
      in if r = [] \<and> t = [] then ''.'' else r @ t)"

definition path_child :: "string \<Rightarrow> string \<Rightarrow> string" where
  "path_child d name = path_str (posixpath_join d name)"

subsection \<open>The file system and the external process\<close>

text \<open>
  The world the handler acts on: what each path names (a file with its bytes, or a
  directory), and the processes run so far, each with its command line and working
  directory, oldest first.
\<close>

datatype node = File "8 word list" | Dir

record world =
  files :: "string \<rightharpoonup> node"
  procs :: "(string \<times> string) list"

text \<open>
  The external tool is opaque: \<open>sh command cwd fs\<close> is the exit status of
  \<^verbatim>\<open>/bin/sh -c command\<close> run in \<open>cwd\<close> on the files \<open>fs\<close>, and the files it leaves.
\<close>

type_synonym shell = "string \<Rightarrow> string \<Rightarrow> (string \<rightharpoonup> node) \<Rightarrow> int \<times> (string \<rightharpoonup> node)"

text \<open>
  \<^verbatim>\<open>subprocess.run(command, shell=True, check=True, cwd=cwd)\<close>: a command line with a
  NUL character is refused with \<^verbatim>\<open>ValueError\<close> before anything runs; otherwise the
  process runs, and a non-zero exit status raises \<^verbatim>\<open>CalledProcessError\<close>.
\<close>

definition subprocess_run :: "shell \<Rightarrow> string \<Rightarrow> string \<Rightarrow> world \<Rightarrow> (py_exn + unit) \<times> world" where
  "subprocess_run sh command cwd w =
     (if CHR 0x00 \<in> set command then (Inl ValueError, w)
      else
        let (returncode, fs) = sh command cwd (files w);
            w' = w\<lparr>files := fs, procs := procs w @ [(command, cwd)]\<rparr>
        in if returncode \<noteq> 0 then (Inl (CalledProcessError returncode), w')
           else (Inr (), w'))"

definition path_exists :: "world \<Rightarrow> string \<Rightarrow> bool" where
  "path_exists w p = (files w p \<noteq> None)"

definition read_bytes :: "world \<Rightarrow> string \<Rightarrow> py_exn + 8 word list" where
  "read_bytes w p =
     (case files w p of
        None \<Rightarrow> Inl FileNotFoundError
      | Some Dir \<Rightarrow> Inl IsADirectoryError
      | Some (File bs) \<Rightarrow> Inr bs)"

text \<open>
  \<^verbatim>\<open>TemporaryDirectory()\<close> makes the directory \<open>tmpdir\<close> on entry, and on every
  exit removes it with everything below it.
\<close>

definition mkdtemp :: "string \<Rightarrow> world \<Rightarrow> world" where
  "mkdtemp tmpdir w = w\<lparr>files := (files w)(tmpdir \<mapsto> Dir)\<rparr>"

definition is_under :: "string \<Rightarrow> string \<Rightarrow> bool" where
  "is_under d p = (p = d \<or> take (length d + 1) p = d @ ''/'')"

definition rmtree :: "string \<Rightarrow> world \<Rightarrow> world" where
  "rmtree tmpdir w = w\<lparr>files := (\<lambda>p. if is_under tmpdir p then None else files w p)\<rparr>"

subsection \<open>The request and the synthesizer\<close>

record TTSRequest =
  "text" :: string
  reference_audio :: "string option"
  speaker :: "string option"
  seed :: "int option"
  output_format :: string
  extra :: "string \<rightharpoonup> string"

record SubprocessSynthesizer =
  template :: string
  workdir :: string

definition default_template :: string where
  "default_template =
     ''python /models/scripts/infer.py '' @
     ''--text {text} '' @
     ''--output {output} '' @
     ''--reference_audio {reference_audio} '' @
     ''--speaker {speaker} '' @
     ''--seed {seed}''"

text \<open>\<^verbatim>\<open>__init__\<close>: both settings come from the environment, each with a default.\<close>

definition getenv :: "(string \<rightharpoonup> string) \<Rightarrow> string \<Rightarrow> string \<Rightarrow> string" where
  "getenv environ name dflt = (case environ name of None \<Rightarrow> dflt | Some v \<Rightarrow> v)"

definition init :: "(string \<rightharpoonup> string) \<Rightarrow> SubprocessSynthesizer" where
  "init environ =
     \<lparr>template = getenv environ ''INDEX_TTS_COMMAND_TEMPLATE'' default_template,
      workdir = getenv environ ''INDEX_TTS_WORKDIR'' ''/models''\<rparr>"

text \<open>
  \<^verbatim>\<open>sanitized = {k: shlex.quote(str(v)) if v else "" for k, v in values.items()}\<close>
\<close>

definition sanitize :: "pyval \<Rightarrow> string" where
  "sanitize v = (if truthy v then shlex_quote (py_str v) else [])"

definition sanitized :: "(string \<rightharpoonup> pyval) \<Rightarrow> (string \<rightharpoonup> string)" where
  "sanitized vals = (\<lambda>k. case vals k of None \<Rightarrow> None | Some v \<Rightarrow> Some (sanitize v))"

definition missing_placeholder :: "string \<Rightarrow> string" where
  "missing_placeholder k =
     ''Missing placeholder '' @ [squote] @ k @ [squote] @ '' in INDEX_TTS_COMMAND_TEMPLATE.''"

definition render_command :: "SubprocessSynthesizer \<Rightarrow> (string \<rightharpoonup> pyval) \<Rightarrow> py_exn + string" where
  "render_command self vals =
     (case py_format (template self) (sanitized vals) of
        Inl exc \<Rightarrow>
          (case exc of
             KeyError k \<Rightarrow> Inl (HTTPException 500 (missing_placeholder k))
           | _ \<Rightarrow> Inl exc)
      | Inr command \<Rightarrow> Inr (py_strip command))"

text \<open>The five built-in values, and the request's \<open>extra\<close> laid over them.\<close>

definition builtin_values :: "TTSRequest \<Rightarrow> string \<Rightarrow> (string \<rightharpoonup> pyval)" where
  "builtin_values request output_path =
     [''text'' \<mapsto> PStr (text request),
      ''output'' \<mapsto> PStr output_path,
      ''reference_audio'' \<mapsto> PStr (case reference_audio request of None \<Rightarrow> [] | Some a \<Rightarrow> a),
      ''speaker'' \<mapsto> PStr (case speaker request of None \<Rightarrow> [] | Some a \<Rightarrow> a),
      ''seed'' \<mapsto> (case seed request of None \<Rightarrow> PStr [] | Some i \<Rightarrow> PInt i)]"

definition template_values :: "TTSRequest \<Rightarrow> string \<Rightarrow> (string \<rightharpoonup> pyval)" where
  "template_values request output_path =
     builtin_values request output_path ++ (\<lambda>k. map_option PStr (extra request k))"

definition empty_command_detail :: string where
  "empty_command_detail = ''Rendered command is empty. Check INDEX_TTS_COMMAND_TEMPLATE.''"

definition command_failed_detail :: "int \<Rightarrow> string" where
  "command_failed_detail returncode =
     ''IndexTTS2 command failed (exit code '' @ str_int returncode @ '').''"

definition not_found_detail :: "string \<Rightarrow> string" where
  "not_found_detail output_path = ''Expected audio file not found at '' @ output_path"

definition output_path_of :: "string \<Rightarrow> TTSRequest \<Rightarrow> string" where
  "output_path_of tmpdir request = path_child tmpdir (''output.'' @ output_format request)"

text \<open>The body of the \<^verbatim>\<open>with\<close> block of \<^verbatim>\<open>synthesize\<close>.\<close>

definition synthesize_body ::
  "SubprocessSynthesizer \<Rightarrow> shell \<Rightarrow> string \<Rightarrow> TTSRequest \<Rightarrow> world \<Rightarrow> (py_exn + 8 word list) \<times> world" where
  "synthesize_body self sh tmpdir request w =
     (let output_path = output_path_of tmpdir request;
          vals = template_values request output_path
      in case render_command self vals of
           Inl exc \<Rightarrow> (Inl exc, w)
         | Inr command \<Rightarrow>
             if command = [] then (Inl (HTTPException 500 empty_command_detail), w)
             else
               (case subprocess_run sh command (workdir self) w of
                  (Inl exc, w') \<Rightarrow>
                    (case exc of
                       CalledProcessError returncode \<Rightarrow>
                         (Inl (HTTPException 500 (command_failed_detail returncode)), w')
                     | _ \<Rightarrow> (Inl exc, w'))
                | (Inr u, w') \<Rightarrow>
                    if \<not> path_exists w' output_path
                    then (Inl (HTTPException 500 (not_found_detail output_path)), w')
                    else (read_bytes w' output_path, w')))"

definition synthesize ::
  "SubprocessSynthesizer \<Rightarrow> shell \<Rightarrow> string \<Rightarrow> TTSRequest \<Rightarrow> world \<Rightarrow> (py_exn + 8 word list) \<times> world" where
  "synthesize self sh tmpdir request w =
     (let (r, w') = synthesize_body self sh tmpdir request (mkdtemp tmpdir w)
      in (r, rmtree tmpdir w'))"

subsection \<open>\<^verbatim>\<open>base64.b64encode\<close> and the endpoint\<close>

definition b64_alphabet :: string where
  "b64_alphabet = ''ABCDEFGHIJKLMNOPQRSTUVWXYZabcdefghijklmnopqrstuvwxyz0123456789+/''"

definition b64_char :: "nat \<Rightarrow> char" where
  "b64_char n = b64_alphabet ! n"

text \<open>
  Three bytes give four characters of six bits each; one or two bytes left over are
  filled with zero bits and one \<^verbatim>\<open>=\<close> per missing byte. Every index passed to
  \<open>b64_char\<close> is below 64.
\<close>

fun b64encode :: "8 word list \<Rightarrow> string" where
  "b64encode [] = []"
| "b64encode [a] =
     [b64_char (unat a div 4), b64_char (unat a mod 4 * 16), CHR ''='', CHR ''='']"
| "b64encode [a, b] =
     [b64_char (unat a div 4), b64_char (unat a mod 4 * 16 + unat b div 16),
      b64_char (unat b mod 16 * 4), CHR ''='']"
| "b64encode (a # b # c # rest) =
     [b64_char (unat a div 4), b64_char (unat a mod 4 * 16 + unat b div 16),
      b64_char (unat b mod 16 * 4 + unat c div 64), b64_char (unat c mod 64)]
     @ b64encode rest"

text \<open>
  The handler of \<^verbatim>\<open>POST /synthesize\<close>, given a validated request. It returns a
  dict with two strings and, under \<^verbatim>\<open>bytes\<close>, an integer.
\<close>

datatype json = JStr string | JInt int

definition synthesize_endpoint ::
  "SubprocessSynthesizer \<Rightarrow> shell \<Rightarrow> string \<Rightarrow> TTSRequest \<Rightarrow> world
     \<Rightarrow> (py_exn + (string \<times> json) list) \<times> world" where
  "synthesize_endpoint handler sh tmpdir request w =
     (case synthesize handler sh tmpdir request w of
        (Inl exc, w') \<Rightarrow> (Inl exc, w')
      | (Inr audio_bytes, w') \<Rightarrow>
          (Inr [(''audio_base64'', JStr (b64encode audio_bytes)),
                (''format'', JStr (output_format request)),
                (''bytes'', JInt (int (length audio_bytes)))], w'))"

text \<open>
  The body of a request as the declaration of \<^verbatim>\<open>TTSRequest\<close> reads it: every key
  may be missing (\<open>None\<close>), and a key that is present has a value of the declared type.
  \<^verbatim>\<open>text\<close> is declared with \<^verbatim>\<open>Field(...)\<close> and is required; no field carries a
  length constraint; the other fields have defaults.
\<close>

record request_body =
  body_text :: "string option"
  body_reference_audio :: "string option"
  body_speaker :: "string option"
  body_seed :: "int option"
  body_output_format :: "string option"
  body_extra :: "(string \<rightharpoonup> string) option"

definition validate_request :: "request_body \<Rightarrow> py_exn + TTSRequest" where
  "validate_request body =
     (case body_text body of
        None \<Rightarrow> Inl (RequestValidationError ''text'')
      | Some t \<Rightarrow>
          Inr \<lparr>text = t,
               reference_audio = body_reference_audio body,
               speaker = body_speaker body,
               seed = body_seed body,
               output_format = (case body_output_format body of None \<Rightarrow> ''wav'' | Some f \<Rightarrow> f),
               extra = (case body_extra body of None \<Rightarrow> Map.empty | Some m \<Rightarrow> m)\<rparr>)"

text \<open>The route: validation first; the handler runs on a valid request only.\<close>

definition post_synthesize ::
  "SubprocessSynthesizer \<Rightarrow> shell \<Rightarrow> string \<Rightarrow> request_body \<Rightarrow> world
     \<Rightarrow> (py_exn + (string \<times> json) list) \<times> world" where
  "post_synthesize handler sh tmpdir body w =
     (case validate_request body of
        Inl exc \<Rightarrow> (Inl exc, w)
      | Inr request \<Rightarrow> synthesize_endpoint handler sh tmpdir request w)"

text \<open>
  The route is declared \<^verbatim>\<open>def synthesize(request: TTSRequest) -> Dict[str, str]\<close>.
  FastAPI (since 0.89) takes the return annotation as the response model: the value the
  handler returns is validated against \<^verbatim>\<open>Dict[str, str]\<close> before it is sent. For
  the type \<^verbatim>\<open>str\<close>, pydantic 1 converts an integer to its decimal string, and
  pydantic 2 refuses it, which FastAPI answers with status 500.
\<close>

datatype pydantic = Pydantic1 | Pydantic2

fun validate_str :: "pydantic \<Rightarrow> json \<Rightarrow> py_exn + string" where
  "validate_str p (JStr s) = Inr s"
| "validate_str Pydantic1 (JInt i) = Inr (str_int i)"
| "validate_str Pydantic2 (JInt i) = Inl ResponseValidationError"

fun validate_str_dict :: "pydantic \<Rightarrow> (string \<times> json) list \<Rightarrow> py_exn + (string \<times> string) list" where
  "validate_str_dict p [] = Inr []"
| "validate_str_dict p ((k, v) # kvs) =
     (case validate_str p v of
        Inl exc \<Rightarrow> Inl exc
      | Inr s \<Rightarrow>
          (case validate_str_dict p kvs of
             Inl exc \<Rightarrow> Inl exc
           | Inr body \<Rightarrow> Inr ((k, s) # body)))"

text \<open>
  What is sent: the validated dict of the handler, or the exception that the handler or
  the validation raised.
\<close>

definition response_body ::
  "pydantic \<Rightarrow> py_exn + (string \<times> json) list \<Rightarrow> py_exn + (string \<times> string) list" where
  "response_body p r = (case r of Inl exc \<Rightarrow> Inl exc | Inr d \<Rightarrow> validate_str_dict p d)"

text \<open>
  The status of the response: 200 for a body that was sent, the exception's own code for
  an \<open>HTTPException\<close>, 422 for a request that fails validation, 500 for any other
  exception.
\<close>

fun exn_status :: "py_exn \<Rightarrow> nat" where
  "exn_status (HTTPException code detail) = code"
| "exn_status (RequestValidationError field) = 422"
| "exn_status exc = 500"

definition http_status :: "pydantic \<Rightarrow> py_exn + (string \<times> json) list \<Rightarrow> nat" where
  "http_status p r = (case response_body p r of Inl exc \<Rightarrow> exn_status exc | Inr body \<Rightarrow> 200)"

subsection \<open>What the specification compares the code with\<close>

text \<open>
  The specification speaks of a value quoted so that the shell reads it as a single
  literal token, and of decoding the base64 text of the response. Neither a shell nor a
  decoder is part of \<^verbatim>\<open>app.py\<close>; the definitions below state what the
  specification means, and the code is compared with them.

  \<open>sh_words\<close> splits a command line into its words by the rules of the POSIX shell
  (Shell Command Language, 2.2 and 2.3): outside quotes a space or a tab ends a word;
  between single quotes every character stands for itself; between double quotes every
  character but \<^verbatim>\<open>$\<close>, the backquote and the backslash does; outside quotes a
  character stands for itself unless the shell gives it a meaning (an operator, a
  newline, an expansion, a pattern, a comment). The result is the list of the words'
  values after quote removal, or \<open>None\<close> when the line is not a list of literal
  words: it ends inside quotes, or holds a character with a meaning. A value is a single
  literal token of a command when it is one of these words.

  The reader is a state machine: the quoting it is in, the word it is reading (\<open>None\<close>
  between words), and the text left.
\<close>

datatype quoting = Unquoted | InSingle | InDouble

definition sh_blank :: "char \<Rightarrow> bool" where
  "sh_blank c = (c = CHR 0x20 \<or> c = CHR 0x09)"

definition sh_special :: "char \<Rightarrow> bool" where
  "sh_special c =
     (c \<in> set [CHR 0x7C, CHR 0x26, CHR 0x3B, CHR 0x3C, CHR 0x3E, CHR 0x28, CHR 0x29,
                CHR 0x24, CHR 0x60, CHR 0x5C, CHR 0x20, CHR 0x09, CHR 0x0A,
                CHR 0x2A, CHR 0x3F, CHR 0x5B, CHR 0x23, CHR 0x7E])"

definition word_of :: "string option \<Rightarrow> string" where
  "word_of cur = (case cur of None \<Rightarrow> [] | Some w \<Rightarrow> w)"

definition end_word :: "string option \<Rightarrow> string list option \<Rightarrow> string list option" where
  "end_word cur rest = (case cur of None \<Rightarrow> rest | Some w \<Rightarrow> map_option ((#) w) rest)"

fun sh_read :: "quoting \<Rightarrow> string option \<Rightarrow> string \<Rightarrow> string list option" where
  "sh_read q cur [] = (if q = Unquoted then end_word cur (Some []) else None)"
| "sh_read Unquoted cur (c # cs) =
     (if c = squote then sh_read InSingle (Some (word_of cur)) cs
      else if c = dquote then sh_read InDouble (Some (word_of cur)) cs
      else if sh_blank c then end_word cur (sh_read Unquoted None cs)
      else if sh_special c then None
      else sh_read Unquoted (Some (word_of cur @ [c])) cs)"
| "sh_read InSingle cur (c # cs) =
     (if c = squote then sh_read Unquoted cur cs
      else sh_read InSingle (Some (word_of cur @ [c])) cs)"
| "sh_read InDouble cur (c # cs) =
     (if c = dquote then sh_read Unquoted cur cs
      else if c = CHR ''$'' \<or> c = CHR 0x60 \<or> c = CHR 0x5C then None
      else sh_read InDouble (Some (word_of cur @ [c])) cs)"

definition sh_words :: "string \<Rightarrow> string list option" where
  "sh_words command = sh_read Unquoted None command"

text \<open>
  \<open>b64decode\<close> is the decoding of RFC 4648: four characters of the alphabet give
  three bytes, and a final group may end in one or two \<^verbatim>\<open>=\<close>.
\<close>

fun index_of :: "'a \<Rightarrow> 'a list \<Rightarrow> nat option" where
  "index_of x [] = None"
| "index_of x (y # ys) = (if x = y then Some 0 else map_option Suc (index_of x ys))"

definition b64_value :: "char \<Rightarrow> nat option" where
  "b64_value c = index_of c b64_alphabet"

fun b64decode :: "string \<Rightarrow> 8 word list option" where
  "b64decode [] = Some []"
| "b64decode (c0 # c1 # c2 # c3 # rest) =
     (case (b64_value c0, b64_value c1) of
        (Some s0, Some s1) \<Rightarrow>
          if c2 = CHR ''='' \<and> c3 = CHR ''='' \<and> rest = []
          then Some [of_nat (s0 * 4 + s1 div 16)]
          else
            (case b64_value c2 of
               None \<Rightarrow> None
             | Some s2 \<Rightarrow>
                 if c3 = CHR ''='' \<and> rest = []
                 then Some [of_nat (s0 * 4 + s1 div 16), of_nat (s1 mod 16 * 16 + s2 div 4)]
                 else
                   (case b64_value c3 of
                      None \<Rightarrow> None
                    | Some s3 \<Rightarrow>
                        map_option
                          ((@) [of_nat (s0 * 4 + s1 div 16), of_nat (s1 mod 16 * 16 + s2 div 4),
                                of_nat (s2 mod 4 * 64 + s3)])
                          (b64decode rest)))
      | _ \<Rightarrow> None)"
| "b64decode cs = None"

subsection \<open>Example data\<close>

text \<open>
  A request with the text \<^verbatim>\<open>hello\<close> and every default, an empty world, and two
  external tools: one that writes nothing and exits with a given status, one that writes
  given bytes to a given path and exits with status 0.
\<close>

definition demo_handler :: SubprocessSynthesizer where
  "demo_handler = \<lparr>template = ''tts {text} {output}'', workdir = ''/models''\<rparr>"

definition demo_request :: TTSRequest where
  "demo_request =
     \<lparr>text = ''hello'', reference_audio = None, speaker = None, seed = None,
      output_format = ''wav'', extra = Map.empty\<rparr>"

definition demo_world :: world where
  "demo_world = \<lparr>files = Map.empty, procs = []\<rparr>"

definition sh_exit :: "int \<Rightarrow> shell" where
  "sh_exit n = (\<lambda>command cwd fs. (n, fs))"

definition sh_write :: "string \<Rightarrow> 8 word list \<Rightarrow> shell" where
  "sh_write p bs = (\<lambda>command cwd fs. (0, fs(p \<mapsto> File bs)))"

definition demo_body :: "string option \<Rightarrow> request_body" where
  "demo_body t =
     \<lparr>body_text = t, body_reference_audio = None, body_speaker = None, body_seed = None,
      body_output_format = None, body_extra = None\<rparr>"

definition demo_override :: TTSRequest where
  "demo_override = demo_request\<lparr>extra := [''output'' \<mapsto> ''/data/out.wav'']\<rparr>"

section \<open>Properties\<close>

subsection \<open>Quoting: the shell reads back what \<^verbatim>\<open>shlex.quote\<close> wrote\<close>

lemma shlex_safe_plain:
  "shlex_safe c \<Longrightarrow> c \<noteq> squote \<and> c \<noteq> dquote \<and> \<not> sh_special c"
  unfolding shlex_safe_def squote_def dquote_def sh_special_def by auto

lemma shlex_quote_nonempty: "shlex_quote s \<noteq> []"
  by (simp add: shlex_quote_def)

lemma digit_char_safe: "n < 10 \<Longrightarrow> shlex_safe (digit_char n)"
proof -
  assume "n < 10"
  then have "digit_char n \<in> set ''0123456789''"
    unfolding digit_char_def by (intro nth_mem) simp
  then show ?thesis unfolding shlex_safe_def by auto
qed

lemma str_nat_safe: "list_all shlex_safe (str_nat n)"
proof (induction n rule: str_nat.induct)
  case (1 n)
  show ?case
  proof (cases "n < 10")
    case True
    then show ?thesis by (subst str_nat.simps) (simp add: digit_char_safe)
  next
    case False
    then have "list_all shlex_safe (str_nat (n div 10))" using 1 by simp
    moreover have "shlex_safe (digit_char (n mod 10))" by (rule digit_char_safe) simp
    ultimately show ?thesis using False by (subst str_nat.simps) simp
  qed
qed

lemma str_nat_nonempty: "str_nat n \<noteq> []"
  by (subst str_nat.simps) simp

lemma str_int_safe: "list_all shlex_safe (str_int i)"
  by (simp add: str_int_def str_nat_safe shlex_safe_def)

lemma str_int_nonempty: "str_int i \<noteq> []"
  by (simp add: str_int_def str_nat_nonempty)

lemma shlex_quote_str_int: "shlex_quote (str_int i) = str_int i"
  by (simp add: shlex_quote_def str_int_safe str_int_nonempty)

subsection \<open>Formatting a list of markup\<close>

lemma format_markup_error:
  "format_markup ms kw = Inl e \<Longrightarrow>
     (\<exists>k. e = KeyError k \<and> k \<in> set (field_names ms) \<and> kw k = None) \<or> Raises e \<in> set ms"
  by (induction ms kw rule: format_markup.induct) (auto split: sum.splits option.splits)

lemma format_markup_plain_error:
  "plain_markup ms \<Longrightarrow> format_markup ms kw = Inl e \<Longrightarrow>
     (\<exists>k. e = KeyError k \<and> find (\<lambda>k. kw k = None) (field_names ms) = Some k)"
  by (induction ms kw rule: format_markup.induct) (auto split: sum.splits option.splits)


lemma format_markup_bound:
  "plain_markup ms \<Longrightarrow> find (\<lambda>k. kw k = None) (field_names ms) = None \<Longrightarrow>
     \<exists>s. format_markup ms kw = Inr s"
  by (induction ms kw rule: format_markup.induct) (auto split: sum.splits option.splits if_splits)

lemma format_markup_Inr_plain: "format_markup ms kw = Inr s \<Longrightarrow> plain_markup ms"
  by (induction ms kw arbitrary: s rule: format_markup.induct) (auto split: sum.splits option.splits)

lemma plain_markup_append: "plain_markup (a @ b) = (plain_markup a \<and> plain_markup b)"
  by (induction a rule: plain_markup.induct) auto

lemma format_markup_append:
  "format_markup a kw = Inr x \<Longrightarrow>
   format_markup (a @ b) kw = (case format_markup b kw of Inl e \<Rightarrow> Inl e | Inr y \<Rightarrow> Inr (x @ y))"
  by (induction a kw arbitrary: x rule: format_markup.induct) (auto split: sum.splits option.splits)

subsection \<open>What the reader of a template can raise\<close>

lemma field_markup_cases:
  "field_markup name = Replacement name \<or> field_markup name = Raises ValueError
   \<or> field_markup name = Raises IndexError \<or> field_markup name = Raises NotModelled"
  by (simp add: field_markup_def)

lemma parse_raises_both:
  "(Raises e \<in> set (parse_literal t) \<longrightarrow> format_exn e) \<and>
   (\<forall>name. Raises e \<in> set (parse_field name t) \<longrightarrow> format_exn e)"
proof (induction t rule: length_induct)
  case (1 t)
  have IH: "\<And>u. length u < length t \<Longrightarrow>
      (Raises e \<in> set (parse_literal u) \<longrightarrow> format_exn e) \<and>
      (\<forall>name. Raises e \<in> set (parse_field name u) \<longrightarrow> format_exn e)"
    using 1 by blast
  show ?case
  proof (cases t)
    case Nil
    then show ?thesis by (simp add: format_exn_def)
  next
    case (Cons c cs)
    have cs: "Raises e \<in> set (parse_literal cs) \<longrightarrow> format_exn e"
      "\<And>name. Raises e \<in> set (parse_field name cs) \<longrightarrow> format_exn e"
      using IH [of cs] Cons by auto
    have field: "Raises e \<in> set (parse_field name t) \<longrightarrow> format_exn e" for name
      using cs(1) cs(2) [of "name @ [c]"] field_markup_cases [of name]
      unfolding Cons by (auto simp: format_exn_def)
    have lit: "Raises e \<in> set (parse_literal t) \<longrightarrow> format_exn e"
    proof (cases cs)
      case Nil
      then show ?thesis unfolding Cons by (simp add: format_exn_def)
    next
      case inner: (Cons d ds)
      have ds: "Raises e \<in> set (parse_literal ds) \<longrightarrow> format_exn e"
        using IH [of ds] Cons inner by simp
      have fld: "Raises e \<in> set (parse_field [] (d # ds)) \<longrightarrow> format_exn e"
        using cs(2) [of "[]"] inner by simp
      have "parse_literal t = Lit c # parse_literal ds \<or> parse_literal t = parse_field [] (d # ds)
          \<or> parse_literal t = [Raises ValueError] \<or> parse_literal t = Lit c # parse_literal cs"
        unfolding Cons inner by simp
      then show ?thesis using ds fld cs(1) by (auto simp: format_exn_def)
    qed
    show ?thesis using lit field by blast
  qed
qed

subsection \<open>Reading a template in two parts\<close>

lemma plain_markup_Cons: "plain_markup (m # ms) \<Longrightarrow> plain_markup ms"
  by (cases m) simp_all

lemma parse_append_both:
  "(plain_markup (parse_literal pre) \<longrightarrow>
      parse_literal (pre @ rest) = parse_literal pre @ parse_literal rest) \<and>
   (\<forall>name. plain_markup (parse_field name pre) \<longrightarrow>
      parse_field name (pre @ rest) = parse_field name pre @ parse_literal rest)"
proof (induction pre rule: length_induct)
  case (1 pre)
  have IH: "\<And>u. length u < length pre \<Longrightarrow>
      (plain_markup (parse_literal u) \<longrightarrow>
         parse_literal (u @ rest) = parse_literal u @ parse_literal rest) \<and>
      (\<forall>name. plain_markup (parse_field name u) \<longrightarrow>
         parse_field name (u @ rest) = parse_field name u @ parse_literal rest)"
    using 1 by blast
  show ?case
  proof (cases pre)
    case Nil
    then show ?thesis by simp
  next
    case (Cons c cs)
    have cs: "plain_markup (parse_literal cs) \<longrightarrow>
        parse_literal (cs @ rest) = parse_literal cs @ parse_literal rest"
      "\<And>name. plain_markup (parse_field name cs) \<longrightarrow>
        parse_field name (cs @ rest) = parse_field name cs @ parse_literal rest"
      using IH [of cs] Cons by auto
    have field: "plain_markup (parse_field name pre) \<longrightarrow>
        parse_field name (pre @ rest) = parse_field name pre @ parse_literal rest" for name
      using cs(1) cs(2) [of "name @ [c]"]
      unfolding Cons by (auto dest: plain_markup_Cons)
    have lit: "plain_markup (parse_literal pre) \<longrightarrow>
        parse_literal (pre @ rest) = parse_literal pre @ parse_literal rest"
    proof (cases cs)
      case Nil
      then show ?thesis unfolding Cons by (cases rest) auto
    next
      case inner: (Cons d ds)
      have ds: "plain_markup (parse_literal ds) \<longrightarrow>
          parse_literal (ds @ rest) = parse_literal ds @ parse_literal rest"
        using IH [of ds] Cons inner by simp
      have fld: "plain_markup (parse_field [] (d # ds)) \<longrightarrow>
          parse_field [] (d # ds @ rest) = parse_field [] (d # ds) @ parse_literal rest"
        using cs(2) [of "[]"] inner by simp
      have lt: "plain_markup (parse_literal (d # ds)) \<longrightarrow>
          parse_literal (d # ds @ rest) = parse_literal (d # ds) @ parse_literal rest"
        using cs(1) inner by simp
      consider (esc) "c = CHR ''{''" "d = CHR ''{''" | (fld) "c = CHR ''{''" "d \<noteq> CHR ''{''"
        | (esc2) "c = CHR ''}''" "d = CHR ''}''" | (bad) "c = CHR ''}''" "d \<noteq> CHR ''}''"
        | (plain) "c \<noteq> CHR ''{''" "c \<noteq> CHR ''}''"
        by blast
      then show ?thesis
      proof cases
        case esc
        then show ?thesis using ds unfolding Cons inner by (auto dest: plain_markup_Cons)
      next
        case fld
        have "parse_literal pre = parse_field [] (d # ds)"
          "parse_literal (pre @ rest) = parse_field [] (d # ds @ rest)"
          using fld unfolding Cons inner by simp_all
        then show ?thesis using \<open>plain_markup (parse_field [] (d # ds)) \<longrightarrow>
          parse_field [] (d # ds @ rest) = parse_field [] (d # ds) @ parse_literal rest\<close> by simp
      next
        case esc2
        then show ?thesis using ds unfolding Cons inner by (auto dest: plain_markup_Cons)
      next
        case bad
        then show ?thesis unfolding Cons inner by simp
      next
        case plain
        have "parse_literal pre = Lit c # parse_literal (d # ds)"
          "parse_literal (pre @ rest) = Lit c # parse_literal (d # ds @ rest)"
          using plain unfolding Cons inner by simp_all
        then show ?thesis using lt by simp
      qed
    qed
    show ?thesis using lit field by blast
  qed
qed

lemma parse_literal_append:
  "plain_template pre \<Longrightarrow> parse_literal (pre @ rest) = parse_literal pre @ parse_literal rest"
  using parse_append_both [of pre rest] by (simp add: plain_template_def)

subsection \<open>Reading a named field; the base64 alphabet\<close>

lemma parse_field_name:
  "list_all field_char k \<Longrightarrow>
     parse_field name (k @ CHR ''}'' # rest) = field_markup (name @ k) # parse_literal rest"
  by (induction k arbitrary: name) (auto simp: field_char_def)

lemma field_markup_plain: "plain_name k \<Longrightarrow> field_markup k = Replacement k"
  by (auto simp: plain_name_def field_markup_def field_char_def list_all_iff)

lemma plain_name_nonempty: "plain_name k \<Longrightarrow> k \<noteq> []"
  by (auto simp: plain_name_def)

lemma parse_literal_field:
  assumes "plain_name k"
  shows "parse_literal (CHR ''{'' # k @ CHR ''}'' # rest) = Replacement k # parse_literal rest"
proof -
  obtain d ds where k: "k = d # ds" using plain_name_nonempty [OF assms] by (cases k) auto
  have d: "d \<noteq> CHR ''{''" using assms k by (auto simp: plain_name_def field_char_def)
  have "parse_literal (CHR ''{'' # k @ CHR ''}'' # rest) = parse_field [] (k @ CHR ''}'' # rest)"
    using d unfolding k by simp
  also have "\<dots> = field_markup k # parse_literal rest"
    using parse_field_name [of k "[]" rest] assms by (simp add: plain_name_def)
  finally show ?thesis using field_markup_plain [OF assms] by simp
qed

lemma index_of_nth: "distinct xs \<Longrightarrow> n < length xs \<Longrightarrow> index_of (xs ! n) xs = Some n"
proof (induction xs arbitrary: n)
  case Nil
  then show ?case by simp
next
  case (Cons x xs)
  then show ?case by (cases n) auto
qed

lemma b64_alphabet_distinct: "distinct b64_alphabet"
  by (simp add: b64_alphabet_def)

lemma b64_alphabet_length: "length b64_alphabet = 64"
  by (simp add: b64_alphabet_def)

lemma b64_value_char: "n < 64 \<Longrightarrow> b64_value (b64_char n) = Some n"
  unfolding b64_value_def b64_char_def
  by (rule index_of_nth) (simp_all add: b64_alphabet_distinct b64_alphabet_length)

lemma b64_char_not_pad: "n < 64 \<Longrightarrow> b64_char n \<noteq> CHR ''=''"
proof -
  assume "n < 64"
  then have "b64_char n \<in> set b64_alphabet"
    unfolding b64_char_def by (intro nth_mem) (simp add: b64_alphabet_length)
  moreover have "CHR ''='' \<notin> set b64_alphabet" by (simp add: b64_alphabet_def)
  ultimately show ?thesis by auto
qed

subsection \<open>Decoding undoes encoding\<close>

lemma unat_byte: "unat (a :: 8 word) < 256"
  using unsigned_less [of a, where ?'a = nat] by simp

lemma div_mod_cat:
  fixes a q n :: nat
  assumes "q < n"
  shows "(a * n + q) div n = a" "(a * n + q) mod n = q"
  using assms by simp_all

lemma sextets:
  fixes x y z :: nat
  assumes "x < 256" "y < 256" "z < 256"
  shows "x div 4 < 64" "x mod 4 * 16 + y div 16 < 64" "y mod 16 * 4 + z div 64 < 64" "z mod 64 < 64"
    "x mod 4 * 16 < 64" "y mod 16 * 4 < 64"
    "x div 4 * 4 + (x mod 4 * 16 + y div 16) div 16 = x"
    "(x mod 4 * 16 + y div 16) mod 16 * 16 + (y mod 16 * 4 + z div 64) div 4 = y"
    "(y mod 16 * 4 + z div 64) mod 4 * 64 + z mod 64 = z"
    "x div 4 * 4 + (x mod 4 * 16) div 16 = x"
    "(x mod 4 * 16 + y div 16) mod 16 * 16 + (y mod 16 * 4) div 4 = y"
proof -
  have xm: "x mod 4 < 4" and yr: "y mod 16 < 16" and zr: "z mod 64 < 64" by simp_all
  have xd: "x div 4 < 64" and yq: "y div 16 < 16" and zq: "z div 64 < 4"
    using assms by (simp_all add: less_mult_imp_div_less)
  show "x div 4 < 64" by (rule xd)
  show "x mod 4 * 16 + y div 16 < 64" using xm yq by linarith
  show "y mod 16 * 4 + z div 64 < 64" using yr zq by linarith
  show "z mod 64 < 64" by (rule zr)
  show "x mod 4 * 16 < 64" using xm by linarith
  show "y mod 16 * 4 < 64" using yr by linarith
  show "x div 4 * 4 + (x mod 4 * 16 + y div 16) div 16 = x"
    using div_mod_cat(1) [OF yq, of "x mod 4"] by simp
  show "(x mod 4 * 16 + y div 16) mod 16 * 16 + (y mod 16 * 4 + z div 64) div 4 = y"
    using div_mod_cat(2) [OF yq, of "x mod 4"] div_mod_cat(1) [OF zq, of "y mod 16"] by simp
  show "(y mod 16 * 4 + z div 64) mod 4 * 64 + z mod 64 = z"
    using div_mod_cat(2) [OF zq, of "y mod 16"] by simp
  show "x div 4 * 4 + (x mod 4 * 16) div 16 = x" by simp
  show "(x mod 4 * 16 + y div 16) mod 16 * 16 + (y mod 16 * 4) div 4 = y"
    using div_mod_cat(2) [OF yq, of "x mod 4"] by simp
qed

lemma b64_group3:
  fixes a b c :: "8 word"
  shows "b64decode (b64_char (unat a div 4) # b64_char (unat a mod 4 * 16 + unat b div 16) #
      b64_char (unat b mod 16 * 4 + unat c div 64) # b64_char (unat c mod 64) # rest)
    = map_option ((@) [a, b, c]) (b64decode rest)"
  using sextets [OF unat_byte [of a] unat_byte [of b] unat_byte [of c]]
  by (simp add: b64_value_char b64_char_not_pad)

lemma b64_group2:
  fixes a b :: "8 word"
  shows "b64decode [b64_char (unat a div 4), b64_char (unat a mod 4 * 16 + unat b div 16),
      b64_char (unat b mod 16 * 4), CHR ''=''] = Some [a, b]"
  using sextets [OF unat_byte [of a] unat_byte [of b] unat_byte [of b]]
  by (simp add: b64_value_char b64_char_not_pad)

lemma b64_group1:
  fixes a :: "8 word"
  shows "b64decode [b64_char (unat a div 4), b64_char (unat a mod 4 * 16), CHR ''='', CHR ''='']
    = Some [a]"
  using sextets [OF unat_byte [of a] unat_byte [of a] unat_byte [of a]]
  by (simp add: b64_value_char b64_char_not_pad)

lemma b64decode_b64encode: "b64decode (b64encode bs) = Some bs"
proof (induction bs rule: b64encode.induct)
  case 1
  show ?case by simp
next
  case (2 a)
  show ?case using b64_group1 [of a] by simp
next
  case (3 a b)
  show ?case using b64_group2 [of a b] by simp
next
  case (4 a b c rest)
  show ?case using b64_group3 [of a b c "b64encode rest"] 4 by simp
qed

subsection \<open>Rendering and the paths through \<^verbatim>\<open>synthesize\<close>\<close>

lemma sanitized_None: "sanitized vals k = None \<longleftrightarrow> vals k = None"
  by (simp add: sanitized_def split: option.splits)

lemma sanitized_Some: "vals k = Some v \<Longrightarrow> sanitized vals k = Some (sanitize v)"
  by (simp add: sanitized_def)

lemma template_values_None:
  "template_values request out k = None \<longleftrightarrow>
     (k \<notin> set [''text'', ''output'', ''reference_audio'', ''speaker'', ''seed'']
      \<and> extra request k = None)"
  by (auto simp: template_values_def builtin_values_def map_add_def split: option.splits)

lemma render_command_Inr:
  "py_format (template self) (sanitized vals) = Inr s \<Longrightarrow>
     render_command self vals = Inr (py_strip s)"
  by (simp add: render_command_def)


lemma render_command_cases:
  "(\<exists>s. py_format (template self) (sanitized vals) = Inr s \<and> render_command self vals = Inr (py_strip s))
   \<or> (\<exists>k. py_format (template self) (sanitized vals) = Inl (KeyError k)
          \<and> render_command self vals = Inl (HTTPException 500 (missing_placeholder k)))
   \<or> (\<exists>e. py_format (template self) (sanitized vals) = Inl e \<and> (\<forall>k. e \<noteq> KeyError k)
          \<and> render_command self vals = Inl e)"
  by (cases "py_format (template self) (sanitized vals)")
     (auto simp: render_command_def split: py_exn.splits)

lemma py_format_field:
  assumes "plain_name k" and "kw k = Some x"
      and "py_format pre kw = Inr a" and "py_format post kw = Inr b"
  shows "py_format (pre @ ''{'' @ k @ ''}'' @ post) kw = Inr (a @ x @ b)"
proof -
  have pre: "plain_template pre"
    using assms(3) format_markup_Inr_plain by (auto simp: py_format_def plain_template_def)
  have "parse_literal (pre @ ''{'' @ k @ ''}'' @ post)
      = parse_literal pre @ Replacement k # parse_literal post"
    using parse_literal_append [OF pre] parse_literal_field [OF assms(1)] by simp
  then show ?thesis
    using assms(2-4) format_markup_append [of "parse_literal pre" kw a]
    by (simp add: py_format_def)
qed


lemma procs_rmtree_mkdtemp: "procs (rmtree tmpdir (mkdtemp tmpdir w)) = procs w"
  by (simp add: rmtree_def mkdtemp_def)

lemma synthesize_empty_command:
  assumes "render_command self (template_values request (output_path_of tmpdir request)) = Inr []"
  shows "synthesize self sh tmpdir request w
    = (Inl (HTTPException 500 empty_command_detail), rmtree tmpdir (mkdtemp tmpdir w))"
  using assms by (simp add: synthesize_def synthesize_body_def)

lemma synthesize_body_run:
  assumes "render_command self (template_values request (output_path_of tmpdir request)) = Inr command"
      and "command \<noteq> []" and "CHR 0x00 \<notin> set command"
      and "sh command (workdir self) (files w) = (n, fs)"
  shows "synthesize_body self sh tmpdir request w =
     (let w' = w\<lparr>files := fs, procs := procs w @ [(command, workdir self)]\<rparr>;
          output_path = output_path_of tmpdir request
      in if n \<noteq> 0 then (Inl (HTTPException 500 (command_failed_detail n)), w')
         else if fs output_path = None then (Inl (HTTPException 500 (not_found_detail output_path)), w')
         else (read_bytes w' output_path, w'))"
  using assms by (simp add: synthesize_body_def subprocess_run_def path_exists_def Let_def)

lemma synthesize_fst:
  "fst (synthesize self sh tmpdir request w) = fst (synthesize_body self sh tmpdir request (mkdtemp tmpdir w))"
  by (simp add: synthesize_def split: prod.splits)

lemma endpoint_error:
  "fst (synthesize self sh tmpdir request w) = Inl e \<Longrightarrow>
     fst (synthesize_endpoint self sh tmpdir request w) = Inl e"
  by (cases "synthesize self sh tmpdir request w") (simp add: synthesize_endpoint_def)

lemma synthesize_snd:
  "snd (synthesize self sh tmpdir request w)
     = rmtree tmpdir (snd (synthesize_body self sh tmpdir request (mkdtemp tmpdir w)))"
  by (simp add: synthesize_def split: prod.splits)

lemma procs_rmtree: "procs (rmtree tmpdir w) = procs w"
  by (simp add: rmtree_def)

lemma procs_mkdtemp: "procs (mkdtemp tmpdir w) = procs w"
  by (simp add: mkdtemp_def)


subsection \<open>The example request\<close>

lemma demo_output_path: "output_path_of ''/tmp/t'' demo_request = ''/tmp/t/output.wav''"
  by (simp add: output_path_of_def demo_request_def path_child_def posixpath_join_def
      path_str_def path_root_def keep_part_def)

lemma demo_format:
  "py_format ''tts {text} {output}''
     (sanitized (template_values demo_request ''/tmp/t/output.wav''))
   = Inr ''tts hello /tmp/t/output.wav''"
  by (simp add: py_format_def field_markup_def is_digit_def sanitized_def template_values_def
      builtin_values_def demo_request_def map_add_def sanitize_def shlex_quote_def shlex_safe_def)

lemma demo_render:
  "render_command demo_handler (template_values demo_request (output_path_of ''/tmp/t'' demo_request))
   = Inr ''tts hello /tmp/t/output.wav''"
proof -
  have "py_strip ''tts hello /tmp/t/output.wav'' = ''tts hello /tmp/t/output.wav''"
    by (simp add: py_strip_def py_isspace_def)
  then show ?thesis
    using render_command_Inr [of demo_handler, OF _] demo_format
    by (simp add: demo_output_path demo_handler_def render_command_def)
qed

lemma read_bytes_Inr: "read_bytes w p = Inr bs \<Longrightarrow> files w p = Some (File bs)"
  by (auto simp: read_bytes_def split: option.splits node.splits)

lemma synthesize_body_Inr:
  assumes "synthesize_body self sh tmpdir request w = (Inr bs, w1)"
  shows "files w1 (output_path_of tmpdir request) = Some (File bs)"
proof -
  let ?out = "output_path_of tmpdir request"
  obtain command where c: "render_command self (template_values request ?out) = Inr command"
    using assms by (cases "render_command self (template_values request ?out)")
      (auto simp: synthesize_body_def Let_def)
  have ne: "command \<noteq> []" using assms c by (auto simp: synthesize_body_def Let_def split: if_splits)
  obtain r w' where run: "subprocess_run sh command (workdir self) w = (r, w')"
    by (cases "subprocess_run sh command (workdir self) w") auto
  have "r = Inr ()" and "read_bytes w' ?out = Inr bs" and "w1 = w'"
    using assms c ne run
    by (auto simp: synthesize_body_def Let_def split: if_splits sum.splits py_exn.splits)
  then show ?thesis using read_bytes_Inr by simp
qed

lemma demo_success:
  "synthesize demo_handler (sh_write ''/tmp/t/output.wav'' [1, 2, 3, 4]) ''/tmp/t'' demo_request demo_world
   = (Inr [1, 2, 3, 4],
      rmtree ''/tmp/t''
        \<lparr>files = [''/tmp/t'' \<mapsto> Dir, ''/tmp/t/output.wav'' \<mapsto> File [1, 2, 3, 4]],
         procs = [(''tts hello /tmp/t/output.wav'', ''/models'')]\<rparr>)"
proof -
  have "sh_write ''/tmp/t/output.wav'' [1, 2, 3, 4] ''tts hello /tmp/t/output.wav'' (workdir demo_handler)
      (files (mkdtemp ''/tmp/t'' demo_world))
    = (0, (files (mkdtemp ''/tmp/t'' demo_world))(''/tmp/t/output.wav'' \<mapsto> File [1, 2, 3, 4]))"
    by (simp add: sh_write_def)
  then have "synthesize_body demo_handler (sh_write ''/tmp/t/output.wav'' [1, 2, 3, 4]) ''/tmp/t''
      demo_request (mkdtemp ''/tmp/t'' demo_world)
    = (Inr [1, 2, 3, 4],
       (mkdtemp ''/tmp/t'' demo_world)\<lparr>files := (files (mkdtemp ''/tmp/t'' demo_world))(''/tmp/t/output.wav'' \<mapsto> File [1, 2, 3, 4]),
         procs := procs (mkdtemp ''/tmp/t'' demo_world) @ [(''tts hello /tmp/t/output.wav'', workdir demo_handler)]\<rparr>)"
    using synthesize_body_run [where sh = "sh_write ''/tmp/t/output.wav'' [1, 2, 3, 4]"
        and w = "mkdtemp ''/tmp/t'' demo_world", OF demo_render]
    by (simp add: demo_output_path read_bytes_def Let_def)
  then show ?thesis
    by (simp add: synthesize_def mkdtemp_def demo_world_def demo_handler_def)
qed

lemma nonzero_seed_substitution:
  assumes "seed request = Some i" and "i \<noteq> 0" and "extra request ''seed'' = None"
  shows "sanitized (template_values request out) ''seed'' = Some (str_int i)"
  using assms
  by (simp add: sanitized_def template_values_def builtin_values_def map_add_def sanitize_def
      shlex_quote_str_int)

lemma absent_seed_substitution:
  assumes "seed request = None" and "extra request ''seed'' = None"
  shows "sanitized (template_values request out) ''seed'' = Some []"
  using assms
  by (simp add: sanitized_def template_values_def builtin_values_def map_add_def sanitize_def)

lemma demo_empty_text_render:
  "render_command demo_handler
     (template_values (demo_request\<lparr>text := []\<rparr>) (output_path_of ''/tmp/t'' (demo_request\<lparr>text := []\<rparr>)))
   = Inr ''tts  /tmp/t/output.wav''"
proof -
  have o: "output_path_of ''/tmp/t'' (demo_request\<lparr>text := []\<rparr>) = ''/tmp/t/output.wav''"
    using demo_output_path by (simp add: output_path_of_def)
  have f: "py_format ''tts {text} {output}''
      (sanitized (template_values (demo_request\<lparr>text := []\<rparr>) ''/tmp/t/output.wav''))
    = Inr ''tts  /tmp/t/output.wav''"
    by (simp add: py_format_def field_markup_def is_digit_def sanitized_def template_values_def
        builtin_values_def demo_request_def map_add_def sanitize_def shlex_quote_def shlex_safe_def)
  have "py_strip ''tts  /tmp/t/output.wav'' = ''tts  /tmp/t/output.wav''"
    by (simp add: py_strip_def py_isspace_def)
  then show ?thesis
    using f by (simp add: o demo_handler_def render_command_def)
qed

lemma template_values_builtin:
  "k \<in> set [''text'', ''output'', ''reference_audio'', ''speaker'', ''seed'']
     \<Longrightarrow> template_values request out k \<noteq> None"
  using template_values_None [of request out k] by blast

lemma parse_literal_raises: "Raises e \<in> set (parse_literal t) \<Longrightarrow> format_exn e"
  using parse_raises_both [of e t] by blast

lemma field_names_append: "field_names (a @ b) = field_names a @ field_names b"
  by (induction a rule: field_names.induct) simp_all

lemma field_names_Lit: "field_names (map Lit s) = []"
  by (induction s) simp_all

lemma default_template_markup:
  "parse_literal default_template =
     map Lit ''python /models/scripts/infer.py --text '' @ Replacement ''text'' #
     map Lit '' --output '' @ Replacement ''output'' #
     map Lit '' --reference_audio '' @ Replacement ''reference_audio'' #
     map Lit '' --speaker '' @ Replacement ''speaker'' #
     map Lit '' --seed '' @ [Replacement ''seed'']"
  by (simp add: default_template_def field_markup_def is_digit_def)

lemma template_values_extra:
  "extra request k = Some p \<Longrightarrow> template_values request out k = Some (PStr p)"
  by (simp add: template_values_def map_add_def)

lemma demo_override_output_path: "output_path_of ''/tmp/t'' demo_override = ''/tmp/t/output.wav''"
  using demo_output_path by (simp add: output_path_of_def demo_override_def)

lemma demo_override_render:
  "render_command demo_handler (template_values demo_override (output_path_of ''/tmp/t'' demo_override))
   = Inr ''tts hello /data/out.wav''"
proof -
  have f: "py_format ''tts {text} {output}''
      (sanitized (template_values demo_override ''/tmp/t/output.wav''))
    = Inr ''tts hello /data/out.wav''"
    by (simp add: py_format_def field_markup_def is_digit_def sanitized_def template_values_def
        builtin_values_def demo_override_def demo_request_def map_add_def sanitize_def
        shlex_quote_def shlex_safe_def)
  have "py_strip ''tts hello /data/out.wav'' = ''tts hello /data/out.wav''"
    by (simp add: py_strip_def py_isspace_def)
  then show ?thesis
    using f by (simp add: demo_override_output_path demo_handler_def render_command_def)
qed

subsection \<open>The quoted value among the words of a command\<close>

lemma sh_blank_special: "sh_blank c \<Longrightarrow> sh_special c \<and> c \<noteq> squote \<and> c \<noteq> dquote"
  by (auto simp: sh_blank_def sh_special_def squote_def dquote_def)

lemma shlex_safe_not_blank: "shlex_safe c \<Longrightarrow> \<not> sh_blank c"
  using shlex_safe_plain sh_blank_special by blast

lemma sh_read_safe:
  "list_all shlex_safe s \<Longrightarrow>
     sh_read Unquoted (Some w) (s @ rest) = sh_read Unquoted (Some (w @ s)) rest"
proof (induction s arbitrary: w)
  case Nil
  show ?case by simp
next
  case (Cons c cs)
  then have c: "c \<noteq> squote" "c \<noteq> dquote" "\<not> sh_special c" "\<not> sh_blank c"
    using shlex_safe_plain [of c] shlex_safe_not_blank [of c] by simp_all
  have "sh_read Unquoted (Some w) ((c # cs) @ rest) = sh_read Unquoted (Some (w @ [c])) (cs @ rest)"
    using c by (simp add: word_of_def)
  also have "\<dots> = sh_read Unquoted (Some ((w @ [c]) @ cs)) rest"
    using Cons by simp
  finally show ?case by simp
qed

lemma sh_read_escaped:
  "sh_read InSingle (Some w) (concat (map escape_squote s) @ squote # rest)
     = sh_read Unquoted (Some (w @ s)) rest"
proof (induction s arbitrary: w)
  case Nil
  show ?case by simp
next
  case (Cons c cs)
  show ?case
  proof (cases "c = squote")
    case True
    have "sh_read InSingle (Some w) (concat (map escape_squote (c # cs)) @ squote # rest)
        = sh_read InSingle (Some (w @ [squote])) (concat (map escape_squote cs) @ squote # rest)"
      using True by (simp add: escape_squote_def word_of_def squote_def dquote_def)
    then show ?thesis using Cons [of "w @ [squote]"] True by simp
  next
    case False
    have "sh_read InSingle (Some w) (concat (map escape_squote (c # cs)) @ squote # rest)
        = sh_read InSingle (Some (w @ [c])) (concat (map escape_squote cs) @ squote # rest)"
      using False by (simp add: escape_squote_def word_of_def)
    then show ?thesis using Cons [of "w @ [c]"] by simp
  qed
qed

lemma sh_read_quote:
  "sh_read Unquoted cur (shlex_quote s @ rest) = sh_read Unquoted (Some (word_of cur @ s)) rest"
proof (cases "s = []")
  case True
  then show ?thesis by (simp add: shlex_quote_def)
next
  case False
  show ?thesis
  proof (cases "list_all shlex_safe s")
    case True
    obtain c cs where s: "s = c # cs" using False by (cases s) auto
    have c: "c \<noteq> squote" "c \<noteq> dquote" "\<not> sh_special c" "\<not> sh_blank c"
      using True shlex_safe_plain [of c] shlex_safe_not_blank [of c] unfolding s by simp_all
    have "sh_read Unquoted cur (s @ rest) = sh_read Unquoted (Some (word_of cur @ [c])) (cs @ rest)"
      unfolding s using c by simp
    also have "\<dots> = sh_read Unquoted (Some ((word_of cur @ [c]) @ cs)) rest"
      using True unfolding s by (intro sh_read_safe) simp
    finally show ?thesis using True False by (simp add: shlex_quote_def s)
  next
    case unsafe: False
    have "sh_read Unquoted cur (shlex_quote s @ rest)
        = sh_read InSingle (Some (word_of cur)) (concat (map escape_squote s) @ squote # rest)"
      using False unsafe by (simp add: shlex_quote_def)
    then show ?thesis by (simp add: sh_read_escaped)
  qed
qed

lemma end_word_append:
  "end_word cur (Some []) = Some ws \<Longrightarrow> end_word cur X = map_option ((@) ws) X"
  by (cases cur) (auto simp: end_word_def option.map_ident cong: option.map_cong)

lemma sh_read_prefix:
  "a \<noteq> [] \<Longrightarrow> sh_blank (last a) \<Longrightarrow> sh_read q cur a = Some ws \<Longrightarrow>
     sh_read q cur (a @ rest) = map_option ((@) ws) (sh_read Unquoted None rest)"
proof (induction a arbitrary: q cur ws)
  case Nil
  then show ?case by simp
next
  case (Cons c cs)
  show ?case
  proof (cases "cs = []")
    case True
    then have b: "sh_blank c" using Cons.prems by simp
    then have nq: "c \<noteq> squote" "c \<noteq> dquote" using sh_blank_special by blast+
    have q: "q = Unquoted"
      using Cons.prems(3) True nq by (cases q) (auto split: if_splits)
    have "end_word cur (Some []) = Some ws"
      using Cons.prems(3) True b nq unfolding q by (simp add: end_word_def)
    then have "end_word cur (sh_read Unquoted None rest) = map_option ((@) ws) (sh_read Unquoted None rest)"
      by (rule end_word_append)
    then show ?thesis using True b nq unfolding q by simp
  next
    case False
    then have l: "sh_blank (last cs)" using Cons.prems by simp
    note IH = Cons.IH [OF False l]
    show ?thesis
    proof (cases q)
      case Unquoted
      show ?thesis
      proof (cases "sh_blank c")
        case True
        then have nq: "c \<noteq> squote" "c \<noteq> dquote" using sh_blank_special by blast+
        have e: "end_word cur (sh_read Unquoted None cs) = Some ws"
          using Cons.prems(3) True nq unfolding Unquoted by simp
        show ?thesis
        proof (cases cur)
          case None
          then have "sh_read Unquoted None cs = Some ws" using e by (simp add: end_word_def)
          then show ?thesis using IH True nq None unfolding Unquoted by (simp add: end_word_def)
        next
          case (Some w)
          then obtain ws' where w: "sh_read Unquoted None cs = Some ws'" "ws = w # ws'"
            using e by (auto simp: end_word_def)
          have "sh_read Unquoted None (cs @ rest) = map_option ((@) ws') (sh_read Unquoted None rest)"
            using IH w(1) by simp
          then show ?thesis using True nq Some w(2) unfolding Unquoted
            by (simp add: end_word_def option.map_comp comp_def)
        qed
      next
        case False
        then show ?thesis using Cons.prems(3) IH unfolding Unquoted
          by (auto split: if_splits)
      qed
    next
      case InSingle
      then show ?thesis using Cons.prems(3) IH by (auto split: if_splits)
    next
      case InDouble
      then show ?thesis using Cons.prems(3) IH by (auto split: if_splits)
    qed
  qed
qed

lemma sh_read_after_word:
  "b = [] \<or> sh_blank (hd b) \<Longrightarrow>
     sh_read Unquoted (Some w) b = map_option ((#) w) (sh_read Unquoted None b)"
proof (cases b)
  case Nil
  then show ?thesis by (simp add: end_word_def)
next
  case (Cons c cs)
  assume "b = [] \<or> sh_blank (hd b)"
  then have c: "sh_blank c" using Cons by simp
  then have "c \<noteq> squote" "c \<noteq> dquote" using sh_blank_special by blast+
  then show ?thesis using c Cons by (simp add: end_word_def)
qed

lemma sh_words_value:
  assumes "sh_words a = Some ws1" and "a = [] \<or> sh_blank (last a)"
      and "sh_words b = Some ws2" and "b = [] \<or> sh_blank (hd b)"
  shows "sh_words (a @ shlex_quote s @ b) = Some (ws1 @ [s] @ ws2)"
proof -
  have tail: "sh_read Unquoted None (shlex_quote s @ b) = Some (s # ws2)"
    using sh_read_quote [of None s b] sh_read_after_word [OF assms(4), of s] assms(3)
    by (simp add: word_of_def sh_words_def)
  show ?thesis
  proof (cases "a = []")
    case True
    then have "ws1 = []" using assms(1) by (simp add: sh_words_def end_word_def)
    then show ?thesis using True tail by (simp add: sh_words_def)
  next
    case False
    then have "sh_blank (last a)" using assms(2) by simp
    then have "sh_read Unquoted None (a @ shlex_quote s @ b)
        = map_option ((@) ws1) (sh_read Unquoted None (shlex_quote s @ b))"
      using sh_read_prefix [OF False, of Unquoted None ws1] assms(1) by (simp add: sh_words_def)
    then show ?thesis using tail by (simp add: sh_words_def)
  qed
qed

subsection \<open>Stripping around a quoted value\<close>

lemma py_strip_lstrip_rstrip: "py_strip s = py_rstrip (py_lstrip s)"
  by (simp add: py_strip_def py_lstrip_def py_rstrip_def)

lemma dropWhile_before:
  assumes "q \<noteq> []" and "\<not> P (hd q)"
  shows "dropWhile P (a @ q @ b) = dropWhile P a @ q @ b"
proof -
  obtain c cs where q: "q = c # cs" using assms(1) by (cases q) auto
  then have "\<not> P c" using assms(2) by simp
  then show ?thesis unfolding q by (induction a) auto
qed

lemma py_strip_around:
  assumes "q \<noteq> []" and "\<not> py_isspace (hd q)" and "\<not> py_isspace (last q)"
  shows "py_strip (a @ q @ b) = py_lstrip a @ q @ py_rstrip b"
proof -
  have l: "dropWhile py_isspace (a @ q @ b) = py_lstrip a @ q @ b"
    using dropWhile_before [where P = py_isspace and q = q and a = a and b = b] assms(1,2)
    by (simp add: py_lstrip_def)
  have "rev q \<noteq> []" and "\<not> py_isspace (hd (rev q))"
    using assms(1,3) by (simp_all add: hd_rev)
  then have "dropWhile py_isspace (rev b @ rev q @ rev (py_lstrip a))
      = dropWhile py_isspace (rev b) @ rev q @ rev (py_lstrip a)"
    using dropWhile_before [where P = py_isspace and q = "rev q" and a = "rev b"
        and b = "rev (py_lstrip a)"] by simp
  then show ?thesis
    unfolding py_strip_def l by (simp add: py_rstrip_def)
qed

lemma shlex_safe_not_space: "shlex_safe c \<Longrightarrow> \<not> py_isspace c"
  unfolding shlex_safe_def py_isspace_def by auto

lemma squote_not_space: "\<not> py_isspace squote"
  by (simp add: py_isspace_def squote_def)

lemma shlex_quote_ends:
  "\<not> py_isspace (hd (shlex_quote s)) \<and> \<not> py_isspace (last (shlex_quote s))"
proof (cases "s = []")
  case True
  then show ?thesis by (simp add: shlex_quote_def squote_not_space)
next
  case False
  show ?thesis
  proof (cases "list_all shlex_safe s")
    case True
    have "hd s \<in> set s" and "last s \<in> set s" using False by simp_all
    then have "shlex_safe (hd s)" and "shlex_safe (last s)"
      using True by (simp_all add: list_all_iff)
    then show ?thesis using True False by (simp add: shlex_quote_def shlex_safe_not_space)
  next
    case unsafe: False
    then show ?thesis using False by (simp add: shlex_quote_def squote_not_space)
  qed
qed

lemma pyval_nonempty_truthy: "v \<noteq> PInt 0 \<Longrightarrow> truthy v \<longleftrightarrow> v \<noteq> PStr []"
  by (cases v) auto

subsection \<open>The value the handler returns, and what is sent\<close>

lemma http_status_Inl: "http_status pyd (Inl exc) = exn_status exc"
  by (simp add: http_status_def response_body_def)

lemma synthesize_endpoint_value:
  assumes "synthesize handler sh tmpdir request w = (Inr audio_bytes, w')"
  shows "(\<exists>w1. synthesize_body handler sh tmpdir request (mkdtemp tmpdir w) = (Inr audio_bytes, w1)
           \<and> files w1 (path_child tmpdir (''output.'' @ output_format request)) = Some (File audio_bytes))
       \<and> synthesize_endpoint handler sh tmpdir request w
           = (Inr [(''audio_base64'', JStr (b64encode audio_bytes)),
                   (''format'', JStr (output_format request)),
                   (''bytes'', JInt (int (length audio_bytes)))], w')
       \<and> b64decode (b64encode audio_bytes) = Some audio_bytes"
proof -
  obtain r w1 where body: "synthesize_body handler sh tmpdir request (mkdtemp tmpdir w) = (r, w1)"
    by (cases "synthesize_body handler sh tmpdir request (mkdtemp tmpdir w)") auto
  then have r: "r = Inr audio_bytes" using assms by (simp add: synthesize_def)
  have fl: "files w1 (path_child tmpdir (''output.'' @ output_format request)) = Some (File audio_bytes)"
    using synthesize_body_Inr body r by (simp add: output_path_of_def)
  have ep: "synthesize_endpoint handler sh tmpdir request w
      = (Inr [(''audio_base64'', JStr (b64encode audio_bytes)),
              (''format'', JStr (output_format request)),
              (''bytes'', JInt (int (length audio_bytes)))], w')"
    using assms by (simp add: synthesize_endpoint_def)
  show ?thesis using body r fl ep by (simp add: b64decode_b64encode)
qed

lemma response_of_handler_value:
  "response_body Pydantic2 (Inr [(''audio_base64'', JStr a), (''format'', JStr f), (''bytes'', JInt n)])
     = Inl ResponseValidationError"
  "http_status Pydantic2 (Inr [(''audio_base64'', JStr a), (''format'', JStr f), (''bytes'', JInt n)]) = 500"
  "response_body Pydantic1 (Inr [(''audio_base64'', JStr a), (''format'', JStr f), (''bytes'', JInt n)])
     = Inr [(''audio_base64'', a), (''format'', f), (''bytes'', str_int n)]"
  "http_status Pydantic1 (Inr [(''audio_base64'', JStr a), (''format'', JStr f), (''bytes'', JInt n)]) = 200"
  by (simp_all add: http_status_def response_body_def)

lemma successful_synthesis_never_sends_integer_bytes:
  assumes "synthesize handler sh tmpdir request w = (Inr audio_bytes, w')"
  shows "http_status Pydantic2 (fst (synthesize_endpoint handler sh tmpdir request w)) = 500"
    and "response_body Pydantic1 (fst (synthesize_endpoint handler sh tmpdir request w))
           = Inr [(''audio_base64'', b64encode audio_bytes), (''format'', output_format request),
                  (''bytes'', str_int (int (length audio_bytes)))]"
  using synthesize_endpoint_value [OF assms] by (simp_all add: response_of_handler_value)

section \<open>The claims\<close>

text \<open>
  C1, as amended. For every substitution mapping passed to \<^verbatim>\<open>_render_command\<close>,
  a string that is not empty, and an integer other than zero, is converted to its string
  form and shell-quoted. Where the template places the placeholder as a word of its own
  (a blank or nothing before and after it, the text around it a list of literal words),
  the value is a single literal token of the rendered command: the shell reads the
  command as the words before, the value itself, and the words after. The empty string
  is substituted as the bare empty string, not as the quoted empty token. Here \<open>a\<close> and
  \<open>b\<close> are what the template renders to before and after the placeholder. What is
  substituted for the integer zero is left out (C6).
\<close>

theorem render_quotes_values_as_words:
  assumes "template self = pre @ ''{'' @ k @ ''}'' @ post"
      and "plain_name k"
      and "vals k = Some v"
      and "v \<noteq> PInt 0"
      and "py_format pre (sanitized vals) = Inr a"
      and "py_format post (sanitized vals) = Inr b"
  shows "(v = PStr [] \<longrightarrow>
            render_command self vals = Inr (py_strip (a @ b))
          \<and> shlex_quote (py_str v) = [squote, squote])
       \<and> (v \<noteq> PStr [] \<longrightarrow>
            render_command self vals
              = Inr (py_lstrip a @ shlex_quote (py_str v) @ py_rstrip b)
          \<and> (\<forall>ws1 ws2.
                sh_words (py_lstrip a) = Some ws1
              \<and> (py_lstrip a = [] \<or> sh_blank (last (py_lstrip a)))
              \<and> sh_words (py_rstrip b) = Some ws2
              \<and> (py_rstrip b = [] \<or> sh_blank (hd (py_rstrip b)))
              \<longrightarrow> sh_words (py_lstrip a @ shlex_quote (py_str v) @ py_rstrip b)
                    = Some (ws1 @ [py_str v] @ ws2)))"
proof -
  have "sanitized vals k = Some (sanitize v)"
    using assms(3) by (simp add: sanitized_def)
  then have "py_format (template self) (sanitized vals) = Inr (a @ sanitize v @ b)"
    unfolding assms(1) using py_format_field assms(2,5,6) by blast
  then have r: "render_command self vals = Inr (py_strip (a @ sanitize v @ b))"
    by (rule render_command_Inr)
  have empty: "render_command self vals = Inr (py_strip (a @ b))
      \<and> shlex_quote (py_str v) = [squote, squote]" if "v = PStr []"
    using r that by (simp add: sanitize_def shlex_quote_def)
  have quoted: "render_command self vals
      = Inr (py_lstrip a @ shlex_quote (py_str v) @ py_rstrip b)" if "v \<noteq> PStr []"
  proof -
    have "sanitize v = shlex_quote (py_str v)"
      using that pyval_nonempty_truthy [OF assms(4)] by (simp add: sanitize_def)
    then show ?thesis
      using r py_strip_around [OF shlex_quote_nonempty, of "py_str v" a b] shlex_quote_ends [of "py_str v"]
      by simp
  qed
  show ?thesis
    using empty quoted sh_words_value by blast
qed

theorem render_quotes_values_as_words_witness:
  "render_command \<lparr>template = ''echo {text} {speaker} end'', workdir = ''/models''\<rparr>
      [''text'' \<mapsto> PStr ''a b'', ''speaker'' \<mapsto> PStr []]
     = Inr (''echo '' @ [squote] @ ''a b'' @ [squote] @ ''  end'')
   \<and> sh_words (''echo '' @ [squote] @ ''a b'' @ [squote] @ ''  end'')
     = Some [''echo'', ''a b'', ''end'']
   \<and> render_command \<lparr>template = ''echo {text} {speaker} end'', workdir = ''/models''\<rparr>
      [''text'' \<mapsto> PStr ''a b'', ''speaker'' \<mapsto> PStr []]
     = Inr (py_strip ((''echo '' @ [squote] @ ''a b'' @ [squote] @ '' '') @ '' end''))"
proof -
  let ?self = "\<lparr>template = ''echo {text} {speaker} end'', workdir = ''/models''\<rparr>"
  let ?vals = "[''text'' \<mapsto> PStr ''a b'', ''speaker'' \<mapsto> PStr []]"
  have q: "shlex_quote ''a b'' = [squote] @ ''a b'' @ [squote]"
    by (simp add: shlex_quote_def shlex_safe_def escape_squote_def squote_def)
  have la: "py_lstrip ''echo '' = ''echo ''" and rb: "py_rstrip ''  end'' = ''  end''"
    by (simp_all add: py_lstrip_def py_rstrip_def py_isspace_def)
  have wa: "sh_words ''echo '' = Some [''echo'']" and wb: "sh_words ''  end'' = Some [''end'']"
    by (simp_all add: sh_words_def sh_blank_def sh_special_def squote_def dquote_def
        word_of_def end_word_def)
  have T1: "render_command ?self ?vals = Inr (py_lstrip ''echo '' @ shlex_quote ''a b'' @ py_rstrip ''  end'')
      \<and> (\<forall>ws1 ws2.
            sh_words (py_lstrip ''echo '') = Some ws1
          \<and> (py_lstrip ''echo '' = [] \<or> sh_blank (last (py_lstrip ''echo '')))
          \<and> sh_words (py_rstrip ''  end'') = Some ws2
          \<and> (py_rstrip ''  end'' = [] \<or> sh_blank (hd (py_rstrip ''  end'')))
          \<longrightarrow> sh_words (py_lstrip ''echo '' @ shlex_quote ''a b'' @ py_rstrip ''  end'')
                = Some (ws1 @ [''a b''] @ ws2))"
    using render_quotes_values_as_words [where self = ?self and vals = ?vals and pre = "''echo ''"
        and k = "''text''" and post = "'' {speaker} end''" and v = "PStr ''a b''"
        and a = "''echo ''" and b = "''  end''"]
    by (simp add: plain_name_def field_char_def is_digit_def py_format_def sanitized_def
        sanitize_def field_markup_def)
  have T2: "render_command ?self ?vals
      = Inr (py_strip ((''echo '' @ [squote] @ ''a b'' @ [squote] @ '' '') @ '' end''))"
    using render_quotes_values_as_words [where self = ?self and vals = ?vals
        and pre = "''echo {text} ''" and k = "''speaker''" and post = "'' end''" and v = "PStr []"
        and a = "''echo '' @ [squote] @ ''a b'' @ [squote] @ '' ''" and b = "'' end''"]
    by (simp add: plain_name_def field_char_def is_digit_def py_format_def sanitized_def
        sanitize_def field_markup_def q)
  have c: "render_command ?self ?vals = Inr (''echo '' @ [squote] @ ''a b'' @ [squote] @ ''  end'')"
    using T1 unfolding la rb q by simp
  have "sh_words (''echo '' @ ([squote] @ ''a b'' @ [squote]) @ ''  end'')
      = Some ([''echo''] @ [''a b''] @ [''end''])"
    using T1 wa wb unfolding la rb q by (simp add: sh_blank_def)
  then have w: "sh_words (''echo '' @ [squote] @ ''a b'' @ [squote] @ ''  end'')
      = Some [''echo'', ''a b'', ''end'']"
    by simp
  show ?thesis using c w T2 by blast
qed

text \<open>
  C1, the counterexample. The claim as stated has the value a single literal token of
  the rendered command whatever the template is. The code quotes the value and puts it
  where the template says: in a template that has the placeholder between its own double
  quotes, the rendered command is not a list of literal words, and the shell expands the
  \<^verbatim>\<open>$(...)\<close> of the value.
\<close>

theorem quoted_placeholder_is_not_a_literal_token:
  "render_command \<lparr>template = ''tts --text '' @ [dquote] @ ''{text}'' @ [dquote], workdir = ''/models''\<rparr>
      [''text'' \<mapsto> PStr ''$(reboot)'']
     = Inr (''tts --text '' @ [dquote, squote] @ ''$(reboot)'' @ [squote, dquote])
   \<and> sh_words (''tts --text '' @ [dquote, squote] @ ''$(reboot)'' @ [squote, dquote]) = None"
proof -
  have q: "shlex_quote ''$(reboot)'' = [squote] @ ''$(reboot)'' @ [squote]"
    by (simp add: shlex_quote_def shlex_safe_def escape_squote_def squote_def)
  have f: "py_format (''tts --text '' @ [dquote] @ ''{text}'' @ [dquote])
      (sanitized [''text'' \<mapsto> PStr ''$(reboot)''])
    = Inr (''tts --text '' @ [dquote] @ shlex_quote ''$(reboot)'' @ [dquote])"
    by (simp add: py_format_def field_markup_def is_digit_def sanitized_def sanitize_def dquote_def)
  have s: "py_strip (''tts --text '' @ [dquote, squote] @ ''$(reboot)'' @ [squote, dquote])
      = ''tts --text '' @ [dquote, squote] @ ''$(reboot)'' @ [squote, dquote]"
    by (simp add: py_strip_def py_isspace_def squote_def dquote_def)
  have r: "render_command \<lparr>template = ''tts --text '' @ [dquote] @ ''{text}'' @ [dquote], workdir = ''/models''\<rparr>
      [''text'' \<mapsto> PStr ''$(reboot)'']
    = Inr (''tts --text '' @ [dquote, squote] @ ''$(reboot)'' @ [squote, dquote])"
    using f s by (simp add: render_command_def q)
  have w: "sh_words (''tts --text '' @ [dquote, squote] @ ''$(reboot)'' @ [squote, dquote]) = None"
    by (simp add: sh_words_def sh_blank_def sh_special_def squote_def dquote_def
        word_of_def end_word_def)
  show ?thesis using r w by blast
qed



text \<open>
  C3. When the external process exits with a status \<open>n\<close> other than zero,
  \<^verbatim>\<open>synthesize\<close> fails with the execution error (status 500) whose detail carries
  \<open>n\<close> in decimal, and the endpoint returns that error and no bytes. The process runs
  when the command renders, is not empty and has no NUL character.
\<close>

theorem nonzero_exit_raises_execution_error:
  assumes "render_command self (template_values request (output_path_of tmpdir request)) = Inr command"
      and "command \<noteq> []"
      and "CHR 0x00 \<notin> set command"
      and "sh command (workdir self) (files (mkdtemp tmpdir w)) = (n, fs)"
      and "n \<noteq> 0"
  shows "fst (synthesize self sh tmpdir request w)
           = Inl (HTTPException 500 (''IndexTTS2 command failed (exit code '' @ str_int n @ '').''))
       \<and> fst (synthesize_endpoint self sh tmpdir request w)
           = Inl (HTTPException 500 (command_failed_detail n))
       \<and> http_status pyd (fst (synthesize_endpoint self sh tmpdir request w)) = 500
       \<and> procs (snd (synthesize self sh tmpdir request w)) = procs w @ [(command, workdir self)]"
proof -
  have body: "synthesize_body self sh tmpdir request (mkdtemp tmpdir w)
      = (Inl (HTTPException 500 (command_failed_detail n)),
         (mkdtemp tmpdir w)\<lparr>files := fs, procs := procs (mkdtemp tmpdir w) @ [(command, workdir self)]\<rparr>)"
    using synthesize_body_run [where sh = sh and w = "mkdtemp tmpdir w", OF assms(1-4)] assms(5) by (simp add: Let_def)
  have f: "fst (synthesize self sh tmpdir request w) = Inl (HTTPException 500 (command_failed_detail n))"
    by (simp add: synthesize_fst body)
  have e: "fst (synthesize_endpoint self sh tmpdir request w) = Inl (HTTPException 500 (command_failed_detail n))"
    using f by (rule endpoint_error)
  have p: "procs (snd (synthesize self sh tmpdir request w)) = procs w @ [(command, workdir self)]"
    by (simp add: synthesize_snd body procs_rmtree procs_mkdtemp)
  show ?thesis using f e p by (simp add: command_failed_detail_def http_status_Inl)
qed

theorem nonzero_exit_raises_execution_error_witness:
  "fst (synthesize demo_handler (sh_exit 2) ''/tmp/t'' demo_request demo_world)
     = Inl (HTTPException 500 ''IndexTTS2 command failed (exit code 2).'')
   \<and> http_status Pydantic2 (fst (synthesize_endpoint demo_handler (sh_exit 2) ''/tmp/t'' demo_request demo_world)) = 500
   \<and> procs (snd (synthesize demo_handler (sh_exit 2) ''/tmp/t'' demo_request demo_world))
     = [(''tts hello /tmp/t/output.wav'', ''/models'')]"
proof -
  have "str_int 2 = ''2''"
    by (simp add: str_int_def str_nat.simps digit_char_def)
  moreover have "sh_exit 2 ''tts hello /tmp/t/output.wav'' (workdir demo_handler)
      (files (mkdtemp ''/tmp/t'' demo_world)) = (2, files (mkdtemp ''/tmp/t'' demo_world))"
    by (simp add: sh_exit_def)
  ultimately show ?thesis
    using nonzero_exit_raises_execution_error [where sh = "sh_exit 2" and w = demo_world
        and n = 2 and pyd = Pydantic2, OF demo_render]
    by (simp add: demo_world_def demo_handler_def http_status_Inl)
qed

text \<open>
  C4. When the external process exits with status 0 and no file exists at
  \<^verbatim>\<open>output.<output_format>\<close> inside the temporary directory, \<^verbatim>\<open>synthesize\<close>
  fails with the output-missing error (status 500) whose detail carries that path, and the
  endpoint returns that error and no bytes.
\<close>

theorem missing_output_raises_output_missing_error:
  assumes "render_command self (template_values request (output_path_of tmpdir request)) = Inr command"
      and "command \<noteq> []"
      and "CHR 0x00 \<notin> set command"
      and "sh command (workdir self) (files (mkdtemp tmpdir w)) = (0, fs)"
      and "fs (path_child tmpdir (''output.'' @ output_format request)) = None"
  shows "fst (synthesize self sh tmpdir request w)
           = Inl (HTTPException 500
               (''Expected audio file not found at ''
                  @ path_child tmpdir (''output.'' @ output_format request)))
       \<and> fst (synthesize_endpoint self sh tmpdir request w)
           = Inl (HTTPException 500 (not_found_detail (output_path_of tmpdir request)))
       \<and> http_status pyd (fst (synthesize_endpoint self sh tmpdir request w)) = 500
       \<and> procs (snd (synthesize self sh tmpdir request w)) = procs w @ [(command, workdir self)]"
proof -
  have none: "fs (output_path_of tmpdir request) = None"
    using assms(5) by (simp add: output_path_of_def)
  have body: "synthesize_body self sh tmpdir request (mkdtemp tmpdir w)
      = (Inl (HTTPException 500 (not_found_detail (output_path_of tmpdir request))),
         (mkdtemp tmpdir w)\<lparr>files := fs, procs := procs (mkdtemp tmpdir w) @ [(command, workdir self)]\<rparr>)"
    using synthesize_body_run [where sh = sh and w = "mkdtemp tmpdir w", OF assms(1-4)] none by (simp add: Let_def)
  have f: "fst (synthesize self sh tmpdir request w)
      = Inl (HTTPException 500 (not_found_detail (output_path_of tmpdir request)))"
    by (simp add: synthesize_fst body)
  have e: "fst (synthesize_endpoint self sh tmpdir request w)
      = Inl (HTTPException 500 (not_found_detail (output_path_of tmpdir request)))"
    using f by (rule endpoint_error)
  have p: "procs (snd (synthesize self sh tmpdir request w)) = procs w @ [(command, workdir self)]"
    by (simp add: synthesize_snd body procs_rmtree procs_mkdtemp)
  show ?thesis using f e p by (simp add: not_found_detail_def output_path_of_def http_status_Inl)
qed

theorem missing_output_raises_output_missing_error_witness:
  "fst (synthesize demo_handler (sh_exit 0) ''/tmp/t'' demo_request demo_world)
     = Inl (HTTPException 500 ''Expected audio file not found at /tmp/t/output.wav'')
   \<and> http_status Pydantic2 (fst (synthesize_endpoint demo_handler (sh_exit 0) ''/tmp/t'' demo_request demo_world)) = 500"
proof -
  have p: "path_child ''/tmp/t'' (''output.'' @ output_format demo_request) = ''/tmp/t/output.wav''"
    using demo_output_path by (simp add: output_path_of_def)
  have "sh_exit 0 ''tts hello /tmp/t/output.wav'' (workdir demo_handler)
      (files (mkdtemp ''/tmp/t'' demo_world)) = (0, files (mkdtemp ''/tmp/t'' demo_world))"
    by (simp add: sh_exit_def)
  moreover have "files (mkdtemp ''/tmp/t'' demo_world)
      (path_child ''/tmp/t'' (''output.'' @ output_format demo_request)) = None"
    unfolding p by (simp add: mkdtemp_def demo_world_def)
  ultimately show ?thesis
    using missing_output_raises_output_missing_error [where sh = "sh_exit 0" and w = demo_world
        and pyd = Pydantic2, OF demo_render]
    unfolding p by (simp add: http_status_Inl)
qed

text \<open>
  C5. The claim: every successful synthesis is answered with status 200 and a JSON body
  whose \<^verbatim>\<open>bytes\<close> is the integer length of the audio. The handler returns that
  dict (\<open>synthesize_endpoint_value\<close>: the base64 text of exactly the bytes of the output
  file, their number, the request's format), but the route is annotated
  \<^verbatim>\<open>-> Dict[str, str]\<close>, and the integer under \<^verbatim>\<open>bytes\<close> does not pass as a
  \<^verbatim>\<open>str\<close>: with pydantic 2 the response is status 500, with pydantic 1 it is
  status 200 with \<^verbatim>\<open>bytes\<close> a string. The request of the specification's scenario,
  with a tool that writes four bytes:
\<close>

theorem successful_response_fails_response_model:
  "fst (synthesize_endpoint demo_handler (sh_write ''/tmp/t/output.wav'' [1, 2, 3, 4]) ''/tmp/t''
          demo_request demo_world)
     = Inr [(''audio_base64'', JStr ''AQIDBA==''), (''format'', JStr ''wav''), (''bytes'', JInt 4)]
   \<and> b64decode ''AQIDBA=='' = Some [1, 2, 3, 4]
   \<and> response_body Pydantic2
        (Inr [(''audio_base64'', JStr ''AQIDBA==''), (''format'', JStr ''wav''), (''bytes'', JInt 4)])
     = Inl ResponseValidationError
   \<and> http_status Pydantic2
        (Inr [(''audio_base64'', JStr ''AQIDBA==''), (''format'', JStr ''wav''), (''bytes'', JInt 4)])
     = 500
   \<and> response_body Pydantic1
        (Inr [(''audio_base64'', JStr ''AQIDBA==''), (''format'', JStr ''wav''), (''bytes'', JInt 4)])
     = Inr [(''audio_base64'', ''AQIDBA==''), (''format'', ''wav''), (''bytes'', ''4'')]"
proof -
  have enc: "b64encode [1, 2, 3, 4 :: 8 word] = ''AQIDBA==''"
    by (simp add: b64_char_def b64_alphabet_def)
  have fmt: "output_format demo_request = ''wav''"
    by (simp add: demo_request_def)
  have four: "str_int 4 = ''4''"
    by (simp add: str_int_def str_nat.simps digit_char_def)
  note V = synthesize_endpoint_value [OF demo_success]
  have ep: "fst (synthesize_endpoint demo_handler (sh_write ''/tmp/t/output.wav'' [1, 2, 3, 4])
      ''/tmp/t'' demo_request demo_world)
    = Inr [(''audio_base64'', JStr (b64encode [1, 2, 3, 4])), (''format'', JStr (output_format demo_request)),
           (''bytes'', JInt (int (length [1, 2, 3, 4 :: 8 word])))]"
    using V by simp
  have dec: "b64decode (b64encode [1, 2, 3, 4 :: 8 word]) = Some [1, 2, 3, 4]"
    using V by blast
  show ?thesis
    using ep dec unfolding enc fmt by (simp add: response_of_handler_value four)
qed

text \<open>
  C6. The claim: whenever \<open>seed\<close> is present, zero included, the value substituted
  for the \<^verbatim>\<open>seed\<close> placeholder is its decimal string. \<^verbatim>\<open>synthesize\<close> keeps a
  zero seed apart from an absent one (\<^verbatim>\<open>is not None\<close>), but the truth test in
  \<^verbatim>\<open>_render_command\<close> then takes the integer 0 for an empty value: a request with
  seed 0 renders the empty string where the claim says \<^verbatim>\<open>0\<close>, while seed 7 renders
  \<^verbatim>\<open>7\<close>.
\<close>

theorem seed_zero_substitution_is_empty:
  "sanitized (template_values (demo_request\<lparr>seed := Some 0\<rparr>) ''/tmp/t/output.wav'') ''seed'' = Some []
   \<and> str_int 0 = ''0''
   \<and> render_command \<lparr>template = ''tts --seed {seed}'', workdir = ''/models''\<rparr>
        (template_values (demo_request\<lparr>seed := Some 0\<rparr>) ''/tmp/t/output.wav'') = Inr ''tts --seed''
   \<and> render_command \<lparr>template = ''tts --seed {seed}'', workdir = ''/models''\<rparr>
        (template_values (demo_request\<lparr>seed := Some 7\<rparr>) ''/tmp/t/output.wav'') = Inr ''tts --seed 7''"
proof -
  have z: "str_int 0 = ''0''" and s: "str_int 7 = ''7''"
    by (simp_all add: str_int_def str_nat.simps digit_char_def)
  have a: "sanitized (template_values (demo_request\<lparr>seed := Some 0\<rparr>) ''/tmp/t/output.wav'') ''seed'' = Some []"
    by (simp add: sanitized_def template_values_def builtin_values_def map_add_def sanitize_def
        demo_request_def)
  have b: "sanitized (template_values (demo_request\<lparr>seed := Some 7\<rparr>) ''/tmp/t/output.wav'') ''seed'' = Some ''7''"
    using nonzero_seed_substitution [of "demo_request\<lparr>seed := Some 7\<rparr>" 7 "''/tmp/t/output.wav''"]
    by (simp add: s demo_request_def)
  have p: "parse_literal ''tts --seed {seed}'' = map Lit ''tts --seed '' @ [Replacement ''seed'']"
    by (simp add: field_markup_def is_digit_def)
  have f0: "py_format ''tts --seed {seed}''
      (sanitized (template_values (demo_request\<lparr>seed := Some 0\<rparr>) ''/tmp/t/output.wav'')) = Inr ''tts --seed ''"
    unfolding py_format_def p using a by simp
  have f7: "py_format ''tts --seed {seed}''
      (sanitized (template_values (demo_request\<lparr>seed := Some 7\<rparr>) ''/tmp/t/output.wav'')) = Inr ''tts --seed 7''"
    unfolding py_format_def p using b by simp
  have s0: "py_strip ''tts --seed '' = ''tts --seed''" and s7: "py_strip ''tts --seed 7'' = ''tts --seed 7''"
    by (simp_all add: py_strip_def py_isspace_def)
  show ?thesis
    using a z f0 f7 s0 s7 by (simp add: render_command_def)
qed

text \<open>
  C7, as amended. The field \<^verbatim>\<open>text\<close> is required: a body without it is
  rejected by validation and the handler does not run. A body whose text is present is
  accepted with that text, the empty string included, and the handler runs on it.
\<close>

theorem text_required_but_may_be_empty:
  "(body_text body = None \<longrightarrow>
      post_synthesize handler sh tmpdir body w = (Inl (RequestValidationError ''text''), w))
   \<and> (\<forall>t. body_text body = Some t \<longrightarrow>
        (\<exists>request. validate_request body = Inr request \<and> text request = t
           \<and> post_synthesize handler sh tmpdir body w
               = synthesize_endpoint handler sh tmpdir request w))"
  by (simp add: post_synthesize_def validate_request_def)

theorem text_required_but_may_be_empty_witness:
  "post_synthesize demo_handler (sh_exit 0) ''/tmp/t'' (demo_body None) demo_world
     = (Inl (RequestValidationError ''text''), demo_world)
   \<and> (\<exists>request. validate_request (demo_body (Some ''hello'')) = Inr request
         \<and> text request = ''hello''
         \<and> post_synthesize demo_handler (sh_exit 0) ''/tmp/t'' (demo_body (Some ''hello'')) demo_world
             = synthesize_endpoint demo_handler (sh_exit 0) ''/tmp/t'' request demo_world)"
proof -
  have n: "body_text (demo_body None) = None" and h: "body_text (demo_body (Some ''hello'')) = Some ''hello''"
    by (simp_all add: demo_body_def)
  show ?thesis
    using text_required_but_may_be_empty [of "demo_body None" demo_handler "sh_exit 0" "''/tmp/t''" demo_world]
      text_required_but_may_be_empty [of "demo_body (Some ''hello'')" demo_handler "sh_exit 0" "''/tmp/t''" demo_world]
      n h
    by blast
qed

text \<open>
  C7, the counterexample. The claim as stated also has an empty text rejected. The
  declaration of
  \<^verbatim>\<open>text\<close> carries no length constraint: a body with the empty text is valid, and
  the external process is run for it.
\<close>

theorem empty_text_reaches_synthesis:
  "body_text (demo_body (Some [])) = Some []
   \<and> validate_request (demo_body (Some [])) = Inr (demo_request\<lparr>text := []\<rparr>)
   \<and> procs (snd (post_synthesize demo_handler (sh_exit 0) ''/tmp/t'' (demo_body (Some [])) demo_world))
       = [(''tts  /tmp/t/output.wav'', ''/models'')]"
proof -
  have v: "validate_request (demo_body (Some [])) = Inr (demo_request\<lparr>text := []\<rparr>)"
    by (simp add: validate_request_def demo_body_def demo_request_def)
  have "sh_exit 0 ''tts  /tmp/t/output.wav'' (workdir demo_handler)
      (files (mkdtemp ''/tmp/t'' demo_world)) = (0, files (mkdtemp ''/tmp/t'' demo_world))"
    by (simp add: sh_exit_def)
  then have "procs (snd (synthesize_body demo_handler (sh_exit 0) ''/tmp/t'' (demo_request\<lparr>text := []\<rparr>)
      (mkdtemp ''/tmp/t'' demo_world))) = [(''tts  /tmp/t/output.wav'', ''/models'')]"
    using synthesize_body_run [where sh = "sh_exit 0" and w = "mkdtemp ''/tmp/t'' demo_world",
        OF demo_empty_text_render]
    by (simp add: Let_def mkdtemp_def demo_world_def demo_handler_def)
  then have "procs (snd (synthesize demo_handler (sh_exit 0) ''/tmp/t'' (demo_request\<lparr>text := []\<rparr>) demo_world))
      = [(''tts  /tmp/t/output.wav'', ''/models'')]"
    by (simp add: synthesize_snd procs_rmtree)
  then have "procs (snd (synthesize_endpoint demo_handler (sh_exit 0) ''/tmp/t'' (demo_request\<lparr>text := []\<rparr>) demo_world))
      = [(''tts  /tmp/t/output.wav'', ''/models'')]"
    by (cases "synthesize demo_handler (sh_exit 0) ''/tmp/t'' (demo_request\<lparr>text := []\<rparr>) demo_world")
       (auto simp: synthesize_endpoint_def split: sum.splits)
  then show ?thesis
    using v by (simp add: post_synthesize_def demo_body_def)
qed

text \<open>
  C8. For a request with an empty \<open>extra\<close> and a template whose placeholders are
  all among the five built-in names, rendering never raises the template error: the
  branch for a missing placeholder is not reached. Rendering returns a command, or the
  template is malformed and \<^verbatim>\<open>str.format\<close> raises its own error. (The first
  hypothesis is the claim's; the proof does not need it, since \<open>extra\<close> only adds
  names.)
\<close>

theorem builtin_placeholders_never_template_error:
  assumes "extra request = Map.empty"
      and "modelled_template (template self)"
      and "set (placeholders (template self))
             \<subseteq> set [''text'', ''output'', ''reference_audio'', ''speaker'', ''seed'']"
  shows "(\<forall>k. py_format (template self) (sanitized (template_values request out)) \<noteq> Inl (KeyError k))
       \<and> (\<forall>k. render_command self (template_values request out)
                \<noteq> Inl (HTTPException 500 (missing_placeholder k)))
       \<and> ((\<exists>command. render_command self (template_values request out) = Inr command)
            \<or> render_command self (template_values request out) = Inl ValueError
            \<or> render_command self (template_values request out) = Inl IndexError)"
proof -
  let ?vals = "template_values request out"
  let ?f = "py_format (template self) (sanitized ?vals)"
  have err: "e = ValueError \<or> e = IndexError" if "?f = Inl e" for e
  proof -
    from that have "(\<exists>k. e = KeyError k \<and> k \<in> set (field_names (parse_literal (template self)))
          \<and> sanitized ?vals k = None) \<or> Raises e \<in> set (parse_literal (template self))"
      using format_markup_error by (simp add: py_format_def)
    moreover have "\<not> (\<exists>k. e = KeyError k \<and> k \<in> set (field_names (parse_literal (template self)))
          \<and> sanitized ?vals k = None)"
    proof
      assume "\<exists>k. e = KeyError k \<and> k \<in> set (field_names (parse_literal (template self)))
          \<and> sanitized ?vals k = None"
      then obtain k where k: "k \<in> set (placeholders (template self))" "sanitized ?vals k = None"
        by (auto simp: placeholders_def)
      then have "k \<in> set [''text'', ''output'', ''reference_audio'', ''speaker'', ''seed'']"
        using assms(3) by blast
      then have "?vals k \<noteq> None" by (rule template_values_builtin)
      then show False using k(2) by (simp add: sanitized_None)
    qed
    ultimately have r: "Raises e \<in> set (parse_literal (template self))" by blast
    then have "format_exn e" by (rule parse_literal_raises)
    moreover have "e \<noteq> NotModelled" using r assms(2) by (auto simp: modelled_template_def)
    ultimately show ?thesis by (simp add: format_exn_def)
  qed
  show ?thesis
  proof (cases ?f)
    case (Inl e)
    then have "e = ValueError \<or> e = IndexError" by (rule err)
    then show ?thesis using Inl by (auto simp: render_command_def)
  next
    case (Inr s)
    then show ?thesis by (simp add: render_command_def)
  qed
qed

theorem builtin_placeholders_never_template_error_witness:
  "extra demo_request = Map.empty
   \<and> modelled_template (template (init Map.empty))
   \<and> set (placeholders (template (init Map.empty)))
        \<subseteq> set [''text'', ''output'', ''reference_audio'', ''speaker'', ''seed'']
   \<and> (\<forall>k. render_command (init Map.empty) (template_values demo_request ''/tmp/t/output.wav'')
            \<noteq> Inl (HTTPException 500 (missing_placeholder k)))"
proof -
  have t: "template (init Map.empty) = default_template"
    by (simp add: init_def getenv_def)
  have h1: "extra demo_request = Map.empty"
    by (simp add: demo_request_def)
  have h2: "modelled_template (template (init Map.empty))"
    unfolding t modelled_template_def default_template_markup by auto
  have h3: "set (placeholders (template (init Map.empty)))
      \<subseteq> set [''text'', ''output'', ''reference_audio'', ''speaker'', ''seed'']"
    unfolding t placeholders_def default_template_markup by (simp add: field_names_append field_names_Lit)
  show ?thesis
    using builtin_placeholders_never_template_error [OF h1 h2 h3, of "''/tmp/t/output.wav''"] h1 h2 h3
    by blast
qed

text \<open>
  C9. When the rendered command is empty after leading and trailing white space is
  trimmed, \<^verbatim>\<open>synthesize\<close> fails with the configuration error (status 500) that says
  the rendered command is empty, and no external process is run.
\<close>

theorem empty_command_raises_configuration_error:
  assumes "py_format (template self)
             (sanitized (template_values request (output_path_of tmpdir request))) = Inr s"
      and "py_strip s = []"
  shows "fst (synthesize self sh tmpdir request w)
           = Inl (HTTPException 500 ''Rendered command is empty. Check INDEX_TTS_COMMAND_TEMPLATE.'')
       \<and> fst (synthesize_endpoint self sh tmpdir request w)
           = Inl (HTTPException 500 empty_command_detail)
       \<and> procs (snd (synthesize self sh tmpdir request w)) = procs w"
proof -
  have "render_command self (template_values request (output_path_of tmpdir request)) = Inr []"
    using render_command_Inr [OF assms(1)] assms(2) by simp
  then have s: "synthesize self sh tmpdir request w
      = (Inl (HTTPException 500 empty_command_detail), rmtree tmpdir (mkdtemp tmpdir w))"
    by (rule synthesize_empty_command)
  have "fst (synthesize_endpoint self sh tmpdir request w) = Inl (HTTPException 500 empty_command_detail)"
    by (rule endpoint_error) (simp add: s)
  then show ?thesis using s by (simp add: procs_rmtree_mkdtemp empty_command_detail_def)
qed

theorem empty_command_raises_configuration_error_witness:
  "fst (synthesize \<lparr>template = '' {speaker} '', workdir = ''/models''\<rparr>
          (sh_exit 0) ''/tmp/t'' demo_request demo_world)
     = Inl (HTTPException 500 ''Rendered command is empty. Check INDEX_TTS_COMMAND_TEMPLATE.'')
   \<and> procs (snd (synthesize \<lparr>template = '' {speaker} '', workdir = ''/models''\<rparr>
          (sh_exit 0) ''/tmp/t'' demo_request demo_world)) = []"
proof -
  let ?h = "\<lparr>template = '' {speaker} '', workdir = ''/models''\<rparr>"
  have f: "py_format (template ?h)
      (sanitized (template_values demo_request (output_path_of ''/tmp/t'' demo_request))) = Inr ''  ''"
    by (simp add: py_format_def field_markup_def is_digit_def sanitized_def template_values_def
        builtin_values_def demo_request_def map_add_def sanitize_def)
  have s: "py_strip ''  '' = []"
    by (simp add: py_strip_def py_isspace_def)
  show ?thesis
    using empty_command_raises_configuration_error [OF f s, of "sh_exit 0" demo_world]
    by (simp add: demo_world_def)
qed

text \<open>
  C10. When \<open>extra\<close> overrides the built-in \<^verbatim>\<open>output\<close> value, the override
  reaches the rendered command only: after an exit status 0, \<^verbatim>\<open>synthesize\<close> still
  looks for the file at the path it computed in the temporary directory, raises the
  output-missing error when nothing is there, and returns the bytes found there otherwise.
\<close>

theorem output_override_changes_only_the_command:
  assumes "extra request ''output'' = Some p"
      and "render_command self (template_values request (output_path_of tmpdir request)) = Inr command"
      and "command \<noteq> []"
      and "CHR 0x00 \<notin> set command"
      and "sh command (workdir self) (files (mkdtemp tmpdir w)) = (0, fs)"
  shows "sanitized (template_values request (output_path_of tmpdir request)) ''output''
           = Some (if p = [] then [] else shlex_quote p)
       \<and> (fs (path_child tmpdir (''output.'' @ output_format request)) = None \<longrightarrow>
            fst (synthesize self sh tmpdir request w)
              = Inl (HTTPException 500
                  (''Expected audio file not found at ''
                     @ path_child tmpdir (''output.'' @ output_format request))))
       \<and> (\<forall>bs. fs (path_child tmpdir (''output.'' @ output_format request)) = Some (File bs) \<longrightarrow>
            fst (synthesize self sh tmpdir request w) = Inr bs)"
proof -
  let ?out = "output_path_of tmpdir request"
  have out: "?out = path_child tmpdir (''output.'' @ output_format request)"
    by (simp add: output_path_of_def)
  have a: "sanitized (template_values request ?out) ''output'' = Some (if p = [] then [] else shlex_quote p)"
    using template_values_extra [OF assms(1), of ?out] by (simp add: sanitized_def sanitize_def)
  have body: "fst (synthesize self sh tmpdir request w)
      = (if fs ?out = None then Inl (HTTPException 500 (not_found_detail ?out))
         else read_bytes ((mkdtemp tmpdir w)\<lparr>files := fs,
                procs := procs (mkdtemp tmpdir w) @ [(command, workdir self)]\<rparr>) ?out)"
    using synthesize_body_run [where sh = sh and w = "mkdtemp tmpdir w", OF assms(2-5)]
    by (simp add: synthesize_fst Let_def)
  have b: "fs ?out = None \<longrightarrow> fst (synthesize self sh tmpdir request w)
      = Inl (HTTPException 500 (''Expected audio file not found at '' @ ?out))"
    using body by (simp add: not_found_detail_def)
  have c: "\<forall>bs. fs ?out = Some (File bs) \<longrightarrow> fst (synthesize self sh tmpdir request w) = Inr bs"
    using body by (simp add: read_bytes_def)
  show ?thesis using a b c unfolding out by blast
qed

theorem output_override_changes_only_the_command_witness:
  "extra demo_override ''output'' = Some ''/data/out.wav''
   \<and> render_command demo_handler (template_values demo_override (output_path_of ''/tmp/t'' demo_override))
       = Inr ''tts hello /data/out.wav''
   \<and> fst (synthesize demo_handler (sh_write ''/data/out.wav'' [1, 2, 3, 4]) ''/tmp/t''
          demo_override demo_world)
       = Inl (HTTPException 500 ''Expected audio file not found at /tmp/t/output.wav'')
   \<and> fst (synthesize demo_handler (sh_write ''/tmp/t/output.wav'' [1, 2, 3, 4]) ''/tmp/t''
          demo_override demo_world)
       = Inr [1, 2, 3, 4]"
proof -
  have e: "extra demo_override ''output'' = Some ''/data/out.wav''"
    by (simp add: demo_override_def)
  have p: "path_child ''/tmp/t'' (''output.'' @ output_format demo_override) = ''/tmp/t/output.wav''"
    using demo_override_output_path by (simp add: output_path_of_def)
  have ne: "''tts hello /data/out.wav'' \<noteq> []" and nul: "CHR 0x00 \<notin> set ''tts hello /data/out.wav''"
    by simp_all
  have r1: "sh_write ''/data/out.wav'' [1, 2, 3, 4] ''tts hello /data/out.wav'' (workdir demo_handler)
      (files (mkdtemp ''/tmp/t'' demo_world))
    = (0, (files (mkdtemp ''/tmp/t'' demo_world))(''/data/out.wav'' \<mapsto> File [1, 2, 3, 4]))"
    by (simp add: sh_write_def)
  have r2: "sh_write ''/tmp/t/output.wav'' [1, 2, 3, 4] ''tts hello /data/out.wav'' (workdir demo_handler)
      (files (mkdtemp ''/tmp/t'' demo_world))
    = (0, (files (mkdtemp ''/tmp/t'' demo_world))(''/tmp/t/output.wav'' \<mapsto> File [1, 2, 3, 4]))"
    by (simp add: sh_write_def)
  have m1: "((files (mkdtemp ''/tmp/t'' demo_world))(''/data/out.wav'' \<mapsto> File [1, 2, 3, 4]))
      ''/tmp/t/output.wav'' = None"
    by (simp add: mkdtemp_def demo_world_def)
  have m2: "((files (mkdtemp ''/tmp/t'' demo_world))(''/tmp/t/output.wav'' \<mapsto> File [1, 2, 3, 4]))
      ''/tmp/t/output.wav'' = Some (File [1, 2, 3, 4])"
    by simp
  note A = output_override_changes_only_the_command [where sh = "sh_write ''/data/out.wav'' [1, 2, 3, 4]"
      and w = demo_world, OF e demo_override_render ne nul r1, unfolded p]
  note B = output_override_changes_only_the_command [where sh = "sh_write ''/tmp/t/output.wav'' [1, 2, 3, 4]"
      and w = demo_world, OF e demo_override_render ne nul r2, unfolded p]
  have a: "fst (synthesize demo_handler (sh_write ''/data/out.wav'' [1, 2, 3, 4]) ''/tmp/t''
      demo_override demo_world)
    = Inl (HTTPException 500 (''Expected audio file not found at '' @ ''/tmp/t/output.wav''))"
    using A m1 by blast
  have b: "fst (synthesize demo_handler (sh_write ''/tmp/t/output.wav'' [1, 2, 3, 4]) ''/tmp/t''
      demo_override demo_world) = Inr [1, 2, 3, 4]"
    using B m2 by blast
  show ?thesis using e demo_override_render a b by simp
qed

end
